theory Spec2Isabelle
  imports Main "HOL-Library.Word"
begin

unbundle bit_operations_syntax

section \<open>The TLS connection object of luv_tls_conn.c\<close>

text \<open>
  The file drives an OpenSSL engine through two memory BIOs. The engine is an
  external library: here it is a record of functions over a state \<open>'w\<close> that stands for
  the SSL object together with everything reachable from it (both BIOs, the error
  queue). The C code is embedded function by function; a C \<open>int\<close> is a 32-bit word
  read in two's complement (\<open>sint\<close>), a \<open>size_t\<close> passed where an \<open>int\<close> is expected
  is cut to 32 bits (\<open>of_nat\<close>), Lua values pushed on the stack are a small datatype,
  and a failing \<open>assert\<close> is the error value \<open>Assertion_failed\<close>. With \<open>NDEBUG\<close>
  defined an assertion is compiled out; the build flag is the first argument
  \<open>ndebug\<close> of every function that asserts. Operations are modelled on an open
  connection (\<open>tc->ssl\<close> is not \<open>NULL\<close>).
\<close>

subsection \<open>Values\<close>

type_synonym cint = "32 word"

datatype lua_value = LNil | LBoolean bool | LNumber int | LString string

datatype failure = Assertion_failed

text \<open>\<open>lua_toboolean\<close>: 0 for \<open>nil\<close> and \<open>false\<close>, 1 for every other value.\<close>

fun lua_toboolean :: "lua_value \<Rightarrow> cint" where
  "lua_toboolean LNil = 0"
| "lua_toboolean (LBoolean b) = (if b then 1 else 0)"
| "lua_toboolean (LNumber n) = 1"
| "lua_toboolean (LString s) = 1"

text \<open>Truth of a Lua value, in the words of the Lua manual: every value but \<open>nil\<close> and \<open>false\<close>.\<close>

definition lua_true :: "lua_value \<Rightarrow> bool" where
  "lua_true v \<longleftrightarrow> v \<noteq> LNil \<and> v \<noteq> LBoolean False"

subsection \<open>Constants of the OpenSSL headers\<close>

text \<open>
  The headers \<open>openssl/ssl.h\<close>, \<open>openssl/evp.h\<close> and \<open>openssl/x509_vfy.h\<close> are not
  part of the file; the values below are the ones these headers give. The labels of
  the \<open>switch\<close> in \<open>tls_conn_verify_error\<close> are distinct in any case, or the file
  would not compile.
\<close>

definition SSL_ERROR_NONE :: cint where "SSL_ERROR_NONE = 0"
definition SSL_ERROR_SSL :: cint where "SSL_ERROR_SSL = 1"
definition SSL_ERROR_WANT_READ :: cint where "SSL_ERROR_WANT_READ = 2"
definition SSL_ERROR_WANT_WRITE :: cint where "SSL_ERROR_WANT_WRITE = 3"
definition SSL_ERROR_WANT_X509_LOOKUP :: cint where "SSL_ERROR_WANT_X509_LOOKUP = 4"
definition SSL_ERROR_SYSCALL :: cint where "SSL_ERROR_SYSCALL = 5"

definition SSL_VERIFY_NONE :: cint where "SSL_VERIFY_NONE = 0"
definition SSL_VERIFY_PEER :: cint where "SSL_VERIFY_PEER = 1"
definition SSL_VERIFY_FAIL_IF_NO_PEER_CERT :: cint where "SSL_VERIFY_FAIL_IF_NO_PEER_CERT = 2"

definition EVP_MAX_MD_SIZE :: nat where "EVP_MAX_MD_SIZE = 64"

definition X509_V_OK :: int where "X509_V_OK = 0"
definition X509_V_ERR_UNABLE_TO_GET_ISSUER_CERT :: int where "X509_V_ERR_UNABLE_TO_GET_ISSUER_CERT = 2"
definition X509_V_ERR_UNABLE_TO_GET_CRL :: int where "X509_V_ERR_UNABLE_TO_GET_CRL = 3"
definition X509_V_ERR_UNABLE_TO_DECRYPT_CERT_SIGNATURE :: int where "X509_V_ERR_UNABLE_TO_DECRYPT_CERT_SIGNATURE = 4"
definition X509_V_ERR_UNABLE_TO_DECRYPT_CRL_SIGNATURE :: int where "X509_V_ERR_UNABLE_TO_DECRYPT_CRL_SIGNATURE = 5"
definition X509_V_ERR_UNABLE_TO_DECODE_ISSUER_PUBLIC_KEY :: int where "X509_V_ERR_UNABLE_TO_DECODE_ISSUER_PUBLIC_KEY = 6"
definition X509_V_ERR_CERT_SIGNATURE_FAILURE :: int where "X509_V_ERR_CERT_SIGNATURE_FAILURE = 7"
definition X509_V_ERR_CRL_SIGNATURE_FAILURE :: int where "X509_V_ERR_CRL_SIGNATURE_FAILURE = 8"
definition X509_V_ERR_CERT_NOT_YET_VALID :: int where "X509_V_ERR_CERT_NOT_YET_VALID = 9"
definition X509_V_ERR_CERT_HAS_EXPIRED :: int where "X509_V_ERR_CERT_HAS_EXPIRED = 10"
definition X509_V_ERR_CRL_NOT_YET_VALID :: int where "X509_V_ERR_CRL_NOT_YET_VALID = 11"
definition X509_V_ERR_CRL_HAS_EXPIRED :: int where "X509_V_ERR_CRL_HAS_EXPIRED = 12"
definition X509_V_ERR_ERROR_IN_CERT_NOT_BEFORE_FIELD :: int where "X509_V_ERR_ERROR_IN_CERT_NOT_BEFORE_FIELD = 13"
definition X509_V_ERR_ERROR_IN_CERT_NOT_AFTER_FIELD :: int where "X509_V_ERR_ERROR_IN_CERT_NOT_AFTER_FIELD = 14"
definition X509_V_ERR_ERROR_IN_CRL_LAST_UPDATE_FIELD :: int where "X509_V_ERR_ERROR_IN_CRL_LAST_UPDATE_FIELD = 15"
definition X509_V_ERR_ERROR_IN_CRL_NEXT_UPDATE_FIELD :: int where "X509_V_ERR_ERROR_IN_CRL_NEXT_UPDATE_FIELD = 16"
definition X509_V_ERR_OUT_OF_MEM :: int where "X509_V_ERR_OUT_OF_MEM = 17"
definition X509_V_ERR_DEPTH_ZERO_SELF_SIGNED_CERT :: int where "X509_V_ERR_DEPTH_ZERO_SELF_SIGNED_CERT = 18"
definition X509_V_ERR_SELF_SIGNED_CERT_IN_CHAIN :: int where "X509_V_ERR_SELF_SIGNED_CERT_IN_CHAIN = 19"
definition X509_V_ERR_UNABLE_TO_GET_ISSUER_CERT_LOCALLY :: int where "X509_V_ERR_UNABLE_TO_GET_ISSUER_CERT_LOCALLY = 20"
definition X509_V_ERR_UNABLE_TO_VERIFY_LEAF_SIGNATURE :: int where "X509_V_ERR_UNABLE_TO_VERIFY_LEAF_SIGNATURE = 21"
definition X509_V_ERR_CERT_CHAIN_TOO_LONG :: int where "X509_V_ERR_CERT_CHAIN_TOO_LONG = 22"
definition X509_V_ERR_CERT_REVOKED :: int where "X509_V_ERR_CERT_REVOKED = 23"
definition X509_V_ERR_INVALID_CA :: int where "X509_V_ERR_INVALID_CA = 24"
definition X509_V_ERR_PATH_LENGTH_EXCEEDED :: int where "X509_V_ERR_PATH_LENGTH_EXCEEDED = 25"
definition X509_V_ERR_INVALID_PURPOSE :: int where "X509_V_ERR_INVALID_PURPOSE = 26"
definition X509_V_ERR_CERT_UNTRUSTED :: int where "X509_V_ERR_CERT_UNTRUSTED = 27"
definition X509_V_ERR_CERT_REJECTED :: int where "X509_V_ERR_CERT_REJECTED = 28"

subsection \<open>The engine\<close>

text \<open>
  A BIO pointer is a handle; \<open>newCONN\<close> allocates two of them. The functions of the
  engine take the state and return the new one. A read function is given the size
  of the caller's buffer and returns, with its status, the bytes found in that
  buffer after the call. \<open>SSL_is_init_finished\<close>, \<open>SSL_get_error\<close>,
  \<open>BIO_should_write\<close> and \<open>BIO_should_read\<close> are queries.
\<close>

datatype BIO = Mem_bio_1 | Mem_bio_2

record 'w engine =
  SSL_is_init_finished :: "'w \<Rightarrow> bool"
  SSL_accept :: "'w \<Rightarrow> cint \<times> 'w"
  SSL_connect :: "'w \<Rightarrow> cint \<times> 'w"
  SSL_read :: "'w \<Rightarrow> nat \<Rightarrow> cint \<times> string \<times> 'w"
  SSL_write :: "'w \<Rightarrow> string \<Rightarrow> cint \<Rightarrow> cint \<times> 'w"
  SSL_get_error :: "'w \<Rightarrow> cint \<Rightarrow> cint"
  ERR_print_errors :: "'w \<Rightarrow> 'w"
  BIO_write :: "BIO \<Rightarrow> 'w \<Rightarrow> string \<Rightarrow> cint \<Rightarrow> cint \<times> 'w"
  BIO_read :: "BIO \<Rightarrow> 'w \<Rightarrow> nat \<Rightarrow> cint \<times> string \<times> 'w"
  BIO_should_write :: "BIO \<Rightarrow> 'w \<Rightarrow> bool"
  BIO_should_read :: "BIO \<Rightarrow> 'w \<Rightarrow> bool"

text \<open>
  The calls an operation makes to the handshake and I/O functions of the engine, in
  order, are returned with its result, so that a theorem can say which of them an
  operation invoked.
\<close>

datatype engine_call =
    Call_SSL_accept
  | Call_SSL_connect
  | Call_SSL_read nat
  | Call_SSL_write string cint
  | Call_BIO_write BIO string cint
  | Call_BIO_read BIO nat

subsection \<open>struct tls\_conn\_t and its constructor\<close>

record 'w tls_conn_t =
  bio_read :: BIO
  bio_write :: BIO
  ssl :: 'w
  is_server :: cint
  error :: cint

text \<open>\<open>tls_conn_verify_cb\<close> ignores both arguments.\<close>

definition tls_conn_verify_cb :: "cint \<Rightarrow> 'x \<Rightarrow> cint" where
  "tls_conn_verify_cb preverify_ok ctx = 1"

text \<open>
  What \<open>newCONN\<close> sets on the SSL object it creates: the two BIOs (\<open>SSL_set_bio\<close>),
  \<open>SSL_MODE_RELEASE_BUFFERS\<close> added to the mode, the verification mode and callback
  (\<open>SSL_set_verify\<close>), and the accept or connect state. The engine's constructor
  \<open>ssl_new sc cfg\<close> stands for \<open>SSL_new(sc->ctx)\<close> followed by these calls, on two
  fresh memory BIOs (\<open>BIO_new(BIO_s_mem())\<close>, twice). \<open>SSL_set_app_data\<close>, which
  stores the address of the connection object in the SSL object, leaves no trace in
  the model: nothing in the file reads it back.
\<close>

record 'x ssl_config =
  cfg_rbio :: BIO
  cfg_wbio :: BIO
  cfg_release_buffers :: bool
  cfg_verify_mode :: cint
  cfg_verify_callback :: "cint \<Rightarrow> 'x \<Rightarrow> cint"
  cfg_accept_state :: bool

definition newCONN ::
  "('c \<Rightarrow> 'x ssl_config \<Rightarrow> 'w) \<Rightarrow> 'c \<Rightarrow> lua_value \<Rightarrow> lua_value \<Rightarrow> lua_value \<Rightarrow> 'w tls_conn_t" where
  "newCONN ssl_new sc arg2 arg3 arg4 =
    (let is_server = lua_toboolean arg2;
         is_request_cert = lua_toboolean arg3;
         is_reject_unauthorized = lua_toboolean arg4;
         verify_mode =
           (if is_server \<noteq> 0 then
              (if \<not> (is_request_cert \<noteq> 0) then SSL_VERIFY_NONE
               else (if is_reject_unauthorized \<noteq> 0
                     then SSL_VERIFY_PEER OR SSL_VERIFY_FAIL_IF_NO_PEER_CERT
                     else SSL_VERIFY_PEER))
            else SSL_VERIFY_NONE)
     in \<lparr> bio_read = Mem_bio_1,
          bio_write = Mem_bio_2,
          ssl = ssl_new sc
                  \<lparr> cfg_rbio = Mem_bio_1, cfg_wbio = Mem_bio_2,
                    cfg_release_buffers = True,
                    cfg_verify_mode = verify_mode,
                    cfg_verify_callback = tls_conn_verify_cb,
                    cfg_accept_state = (is_server \<noteq> 0) \<rparr>,
          is_server = is_server,
          error = 0 \<rparr>)"

text \<open>
  The settings \<open>newCONN\<close> hands to the engine, read off by a constructor that returns
  them.
\<close>

definition newCONN_config :: "'c \<Rightarrow> lua_value \<Rightarrow> lua_value \<Rightarrow> lua_value \<Rightarrow> 'x ssl_config" where
  "newCONN_config sc arg2 arg3 arg4 = ssl (newCONN (\<lambda>sc cfg. cfg) sc arg2 arg3 arg4)"

subsection \<open>The two error handlers\<close>

text \<open>
  \<open>tls_handle_ssl_error_x\<close> has no access to the connection object: it returns a
  status and, in its last branch, prints the engine's error queue into a scratch
  BIO that it frees again. \<open>ERR_print_errors E\<close> stands for that block (the
  allocation of the scratch BIO, which may fail, the printing, which empties the
  queue, and the release). \<open>tls_handle_bio_error_x\<close> is given the connection object
  and stores the status in it in its last branch; \<open>BIO_should_retry\<close>, which it
  reads for a debug message only, is left out.
\<close>

definition tls_handle_ssl_error_x :: "bool \<Rightarrow> 'w engine \<Rightarrow> 'w \<Rightarrow> cint \<Rightarrow> failure + cint \<times> 'w" where
  "tls_handle_ssl_error_x ndebug E s rv =
    (if 0 \<le> sint rv then Inr (rv, s)
     else
       (let err = SSL_get_error E s rv in
        if err = SSL_ERROR_NONE then Inr (0, s)
        else if err = SSL_ERROR_WANT_WRITE then Inr (0, s)
        else if err = SSL_ERROR_WANT_READ then Inr (0, s)
        else if ndebug \<or> err = SSL_ERROR_SSL \<or> err = SSL_ERROR_SYSCALL
             then Inr (rv, ERR_print_errors E s)
             else Inl Assertion_failed))"

definition tls_handle_bio_error_x ::
  "bool \<Rightarrow> 'w engine \<Rightarrow> 'w tls_conn_t \<Rightarrow> BIO \<Rightarrow> 'w \<Rightarrow> cint \<Rightarrow> failure + cint \<times> 'w tls_conn_t" where
  "tls_handle_bio_error_x ndebug E tc bio s rv =
    (if 0 \<le> sint rv then Inr (rv, tc)
     else if BIO_should_write E bio s then Inr (0, tc)
     else if BIO_should_read E bio s then Inr (0, tc)
     else if ndebug \<or> rv = SSL_ERROR_SSL \<or> rv = SSL_ERROR_SYSCALL
          then Inr (rv, tc\<lparr>error := rv\<rparr>)
          else Inl Assertion_failed)"

subsection \<open>The operations\<close>

text \<open>
  Each operation returns the values it pushes on the Lua stack, the connection
  after the call and the engine calls it made.
\<close>

type_synonym 'w outcome = "failure + lua_value list \<times> 'w tls_conn_t \<times> engine_call list"

definition tls_conn_start :: "bool \<Rightarrow> 'w engine \<Rightarrow> 'w tls_conn_t \<Rightarrow> 'w outcome" where
  "tls_conn_start ndebug E tc =
    (if \<not> SSL_is_init_finished E (ssl tc) then
       (let (rv, s) = (if is_server tc \<noteq> 0 then SSL_accept E (ssl tc)
                       else SSL_connect E (ssl tc));
            c = (if is_server tc \<noteq> 0 then Call_SSL_accept else Call_SSL_connect)
        in case tls_handle_ssl_error_x ndebug E s rv of
             Inl e \<Rightarrow> Inl e
           | Inr (r, s') \<Rightarrow> Inr ([LNumber (sint rv)], tc\<lparr>ssl := s'\<rparr>, [c]))
     else Inr ([LNumber (sint (0 :: cint))], tc, []))"

definition tls_conn_enc_in :: "bool \<Rightarrow> 'w engine \<Rightarrow> 'w tls_conn_t \<Rightarrow> string \<Rightarrow> 'w outcome" where
  "tls_conn_enc_in ndebug E tc data =
    (let len = length data;
         (bytes_written, s) = BIO_write E (bio_read tc) (ssl tc) data (of_nat len)
     in case tls_handle_bio_error_x ndebug E (tc\<lparr>ssl := s\<rparr>) (bio_read tc) s bytes_written of
          Inl e \<Rightarrow> Inl e
        | Inr (r, tc') \<Rightarrow>
            Inr ([LNumber (sint bytes_written)], tc',
                 [Call_BIO_write (bio_read tc) data (of_nat len)]))"

definition tls_conn_enc_out :: "bool \<Rightarrow> 'w engine \<Rightarrow> 'w tls_conn_t \<Rightarrow> 'w outcome" where
  "tls_conn_enc_out ndebug E tc =
    (let (bytes_read, pool, s) = BIO_read E (bio_write tc) (ssl tc) 4096
     in case tls_handle_bio_error_x ndebug E (tc\<lparr>ssl := s\<rparr>) (bio_write tc) s bytes_read of
          Inl e \<Rightarrow> Inl e
        | Inr (r, tc') \<Rightarrow>
            Inr ([LNumber (sint bytes_read),
                  (if 0 < sint bytes_read then LString (take (nat (sint bytes_read)) pool)
                   else LString [])],
                 tc', [Call_BIO_read (bio_write tc) 4096]))"

text \<open>The part of \<open>tls_conn_clear_out\<close> after the handshake block (\<open>SSL_read\<close> onwards).\<close>

definition tls_conn_clear_out_read ::
  "bool \<Rightarrow> 'w engine \<Rightarrow> 'w tls_conn_t \<Rightarrow> engine_call list \<Rightarrow> 'w outcome" where
  "tls_conn_clear_out_read ndebug E tc cs =
    (let (bytes_read, pool, s) = SSL_read E (ssl tc) 4096
     in case tls_handle_ssl_error_x ndebug E s bytes_read of
          Inl e \<Rightarrow> Inl e
        | Inr (r, s') \<Rightarrow>
            Inr ([LNumber (sint bytes_read),
                  (if 0 < sint bytes_read then LString (take (nat (sint bytes_read)) pool)
                   else LString [])],
                 tc\<lparr>ssl := s'\<rparr>, cs @ [Call_SSL_read 4096]))"

definition tls_conn_clear_out :: "bool \<Rightarrow> 'w engine \<Rightarrow> 'w tls_conn_t \<Rightarrow> 'w outcome" where
  "tls_conn_clear_out ndebug E tc =
    (if \<not> SSL_is_init_finished E (ssl tc) then
       (let (rv, s) = (if is_server tc \<noteq> 0 then SSL_accept E (ssl tc)
                       else SSL_connect E (ssl tc));
            c = (if is_server tc \<noteq> 0 then Call_SSL_accept else Call_SSL_connect)
        in case tls_handle_ssl_error_x ndebug E s rv of
             Inl e \<Rightarrow> Inl e
           | Inr (r, s') \<Rightarrow>
               if sint rv < 0 then Inr ([LNumber (sint rv)], tc\<lparr>ssl := s'\<rparr>, [c])
               else tls_conn_clear_out_read ndebug E (tc\<lparr>ssl := s'\<rparr>) [c])
     else tls_conn_clear_out_read ndebug E tc [])"

text \<open>The part of \<open>tls_conn_clear_in\<close> after the handshake block (\<open>SSL_write\<close> onwards).\<close>

definition tls_conn_clear_in_write ::
  "bool \<Rightarrow> 'w engine \<Rightarrow> 'w tls_conn_t \<Rightarrow> string \<Rightarrow> engine_call list \<Rightarrow> 'w outcome" where
  "tls_conn_clear_in_write ndebug E tc data cs =
    (let len = length data;
         (bytes_written, s) = SSL_write E (ssl tc) data (of_nat len)
     in case tls_handle_ssl_error_x ndebug E s bytes_written of
          Inl e \<Rightarrow> Inl e
        | Inr (r, s') \<Rightarrow>
            Inr ([LNumber (sint bytes_written)], tc\<lparr>ssl := s'\<rparr>,
                 cs @ [Call_SSL_write data (of_nat len)]))"

definition tls_conn_clear_in :: "bool \<Rightarrow> 'w engine \<Rightarrow> 'w tls_conn_t \<Rightarrow> string \<Rightarrow> 'w outcome" where
  "tls_conn_clear_in ndebug E tc data =
    (if \<not> SSL_is_init_finished E (ssl tc) then
       (let (rv, s) = (if is_server tc \<noteq> 0 then SSL_accept E (ssl tc)
                       else SSL_connect E (ssl tc));
            c = (if is_server tc \<noteq> 0 then Call_SSL_accept else Call_SSL_connect)
        in case tls_handle_ssl_error_x ndebug E s rv of
             Inl e \<Rightarrow> Inl e
           | Inr (r, s') \<Rightarrow>
               if sint rv < 0 then Inr ([LNumber (sint rv)], tc\<lparr>ssl := s'\<rparr>, [c])
               else tls_conn_clear_in_write ndebug E (tc\<lparr>ssl := s'\<rparr>) data [c])
     else tls_conn_clear_in_write ndebug E tc data [])"

definition tls_conn_get_error :: "'w tls_conn_t \<Rightarrow> lua_value" where
  "tls_conn_get_error tc = (if error tc \<noteq> 0 then LNumber (sint (error tc)) else LNil)"

definition tls_conn_clear_error :: "'w tls_conn_t \<Rightarrow> 'w tls_conn_t" where
  "tls_conn_clear_error tc = tc\<lparr>error := 0\<rparr>"

subsection \<open>tls\_conn\_verify\_error\<close>

text \<open>
  The three engine functions the operation uses are its first arguments. The result of
  \<open>SSL_get_verify_result\<close> is a C \<open>long\<close>; it is only compared with constants, and is an
  integer here. The \<open>switch\<close> is the chain of its cases in the order of the source.
\<close>

definition tls_conn_verify_error ::
  "('w \<Rightarrow> 'x option) \<Rightarrow> ('w \<Rightarrow> int) \<Rightarrow> (int \<Rightarrow> string) \<Rightarrow> 'w tls_conn_t \<Rightarrow> lua_value" where
  "tls_conn_verify_error SSL_get_peer_certificate SSL_get_verify_result
       X509_verify_cert_error_string tc =
    (case SSL_get_peer_certificate (ssl tc) of
       None \<Rightarrow> LString ''Unable to get peer certificate''
     | Some peer_cert \<Rightarrow>
         (let verify = SSL_get_verify_result (ssl tc) in
           if verify = X509_V_OK then LNil
           else if verify = X509_V_ERR_UNABLE_TO_GET_ISSUER_CERT then LString ''UNABLE_TO_GET_ISSUER_CERT''
           else if verify = X509_V_ERR_UNABLE_TO_GET_CRL then LString ''UNABLE_TO_GET_CRL''
           else if verify = X509_V_ERR_UNABLE_TO_DECRYPT_CERT_SIGNATURE then LString ''UNABLE_TO_DECRYPT_CERT_SIGNATURE''
           else if verify = X509_V_ERR_UNABLE_TO_DECRYPT_CRL_SIGNATURE then LString ''UNABLE_TO_DECRYPT_CRL_SIGNATURE''
           else if verify = X509_V_ERR_UNABLE_TO_DECODE_ISSUER_PUBLIC_KEY then LString ''UNABLE_TO_DECODE_ISSUER_PUBLIC_KEY''
           else if verify = X509_V_ERR_CERT_SIGNATURE_FAILURE then LString ''CERT_SIGNATURE_FAILURE''
           else if verify = X509_V_ERR_CRL_SIGNATURE_FAILURE then LString ''CRL_SIGNATURE_FAILURE''
           else if verify = X509_V_ERR_CERT_NOT_YET_VALID then LString ''CERT_NOT_YET_VALID''
           else if verify = X509_V_ERR_CERT_HAS_EXPIRED then LString ''CERT_HAS_EXPIRED''
           else if verify = X509_V_ERR_CRL_NOT_YET_VALID then LString ''CRL_NOT_YET_VALID''
           else if verify = X509_V_ERR_CRL_HAS_EXPIRED then LString ''CRL_HAS_EXPIRED''
           else if verify = X509_V_ERR_ERROR_IN_CERT_NOT_BEFORE_FIELD then LString ''ERROR_IN_CERT_NOT_BEFORE_FIELD''
           else if verify = X509_V_ERR_ERROR_IN_CERT_NOT_AFTER_FIELD then LString ''ERROR_IN_CERT_NOT_AFTER_FIELD''
           else if verify = X509_V_ERR_ERROR_IN_CRL_LAST_UPDATE_FIELD then LString ''ERROR_IN_CRL_LAST_UPDATE_FIELD''
           else if verify = X509_V_ERR_ERROR_IN_CRL_NEXT_UPDATE_FIELD then LString ''ERROR_IN_CRL_NEXT_UPDATE_FIELD''
           else if verify = X509_V_ERR_OUT_OF_MEM then LString ''OUT_OF_MEM''
           else if verify = X509_V_ERR_DEPTH_ZERO_SELF_SIGNED_CERT then LString ''DEPTH_ZERO_SELF_SIGNED_CERT''
           else if verify = X509_V_ERR_SELF_SIGNED_CERT_IN_CHAIN then LString ''SELF_SIGNED_CERT_IN_CHAIN''
           else if verify = X509_V_ERR_UNABLE_TO_GET_ISSUER_CERT_LOCALLY then LString ''UNABLE_TO_GET_ISSUER_CERT_LOCALLY''
           else if verify = X509_V_ERR_UNABLE_TO_VERIFY_LEAF_SIGNATURE then LString ''UNABLE_TO_VERIFY_LEAF_SIGNATURE''
           else if verify = X509_V_ERR_CERT_CHAIN_TOO_LONG then LString ''CERT_CHAIN_TOO_LONG''
           else if verify = X509_V_ERR_CERT_REVOKED then LString ''CERT_REVOKED''
           else if verify = X509_V_ERR_INVALID_CA then LString ''INVALID_CA''
           else if verify = X509_V_ERR_PATH_LENGTH_EXCEEDED then LString ''PATH_LENGTH_EXCEEDED''
           else if verify = X509_V_ERR_INVALID_PURPOSE then LString ''INVALID_PURPOSE''
           else if verify = X509_V_ERR_CERT_UNTRUSTED then LString ''CERT_UNTRUSTED''
           else if verify = X509_V_ERR_CERT_REJECTED then LString ''CERT_REJECTED''
           else LString (X509_verify_cert_error_string verify)))"

text \<open>
  The taxonomy of the specification: the named verification failures, each with the
  code it stands for.
\<close>

definition verify_error_names :: "(int \<times> string) list" where
  "verify_error_names =
    [(X509_V_ERR_UNABLE_TO_GET_ISSUER_CERT, ''UNABLE_TO_GET_ISSUER_CERT''),
     (X509_V_ERR_UNABLE_TO_GET_CRL, ''UNABLE_TO_GET_CRL''),
     (X509_V_ERR_UNABLE_TO_DECRYPT_CERT_SIGNATURE, ''UNABLE_TO_DECRYPT_CERT_SIGNATURE''),
     (X509_V_ERR_UNABLE_TO_DECRYPT_CRL_SIGNATURE, ''UNABLE_TO_DECRYPT_CRL_SIGNATURE''),
     (X509_V_ERR_UNABLE_TO_DECODE_ISSUER_PUBLIC_KEY, ''UNABLE_TO_DECODE_ISSUER_PUBLIC_KEY''),
     (X509_V_ERR_CERT_SIGNATURE_FAILURE, ''CERT_SIGNATURE_FAILURE''),
     (X509_V_ERR_CRL_SIGNATURE_FAILURE, ''CRL_SIGNATURE_FAILURE''),
     (X509_V_ERR_CERT_NOT_YET_VALID, ''CERT_NOT_YET_VALID''),
     (X509_V_ERR_CERT_HAS_EXPIRED, ''CERT_HAS_EXPIRED''),
     (X509_V_ERR_CRL_NOT_YET_VALID, ''CRL_NOT_YET_VALID''),
     (X509_V_ERR_CRL_HAS_EXPIRED, ''CRL_HAS_EXPIRED''),
     (X509_V_ERR_ERROR_IN_CERT_NOT_BEFORE_FIELD, ''ERROR_IN_CERT_NOT_BEFORE_FIELD''),
     (X509_V_ERR_ERROR_IN_CERT_NOT_AFTER_FIELD, ''ERROR_IN_CERT_NOT_AFTER_FIELD''),
     (X509_V_ERR_ERROR_IN_CRL_LAST_UPDATE_FIELD, ''ERROR_IN_CRL_LAST_UPDATE_FIELD''),
     (X509_V_ERR_ERROR_IN_CRL_NEXT_UPDATE_FIELD, ''ERROR_IN_CRL_NEXT_UPDATE_FIELD''),
     (X509_V_ERR_OUT_OF_MEM, ''OUT_OF_MEM''),
     (X509_V_ERR_DEPTH_ZERO_SELF_SIGNED_CERT, ''DEPTH_ZERO_SELF_SIGNED_CERT''),
     (X509_V_ERR_SELF_SIGNED_CERT_IN_CHAIN, ''SELF_SIGNED_CERT_IN_CHAIN''),
     (X509_V_ERR_UNABLE_TO_GET_ISSUER_CERT_LOCALLY, ''UNABLE_TO_GET_ISSUER_CERT_LOCALLY''),
     (X509_V_ERR_UNABLE_TO_VERIFY_LEAF_SIGNATURE, ''UNABLE_TO_VERIFY_LEAF_SIGNATURE''),
     (X509_V_ERR_CERT_CHAIN_TOO_LONG, ''CERT_CHAIN_TOO_LONG''),
     (X509_V_ERR_CERT_REVOKED, ''CERT_REVOKED''),
     (X509_V_ERR_INVALID_CA, ''INVALID_CA''),
     (X509_V_ERR_PATH_LENGTH_EXCEEDED, ''PATH_LENGTH_EXCEEDED''),
     (X509_V_ERR_INVALID_PURPOSE, ''INVALID_PURPOSE''),
     (X509_V_ERR_CERT_UNTRUSTED, ''CERT_UNTRUSTED''),
     (X509_V_ERR_CERT_REJECTED, ''CERT_REJECTED'')]"

subsection \<open>The fingerprint of tls\_conn\_get\_peer\_certificate\<close>

definition hex :: string where
  "hex = ''0123456789ABCDEF''"

text \<open>
  The \<open>for\<close> loop over the digest \<open>md\<close> (of \<open>md_size = length md\<close> bytes), writing three
  characters a byte into the array \<open>fingerprint\<close>.
\<close>

function fingerprint_loop :: "8 word list \<Rightarrow> nat \<Rightarrow> string \<Rightarrow> string" where
  "fingerprint_loop md i fingerprint =
    (if i < length md then
       fingerprint_loop md (i + 1)
         (fingerprint[3 * i := hex ! unat (drop_bit 4 (md ! i AND 0xf0)),
                      3 * i + 1 := hex ! unat (md ! i AND 0x0f),
                      3 * i + 2 := CHR '':''])
     else fingerprint)"
  by pat_completeness auto
termination
  by (relation "measure (\<lambda>(md, i, fingerprint). length md - i)") auto

declare fingerprint_loop.simps [simp del]

text \<open>The three characters one pass of the loop writes for the byte \<open>b\<close>.\<close>

definition fingerprint_triple :: "8 word \<Rightarrow> string" where
  "fingerprint_triple b =
     [hex ! unat (drop_bit 4 (b AND 0xf0)), hex ! unat (b AND 0x0f), CHR '':'']"


text \<open>
  The block after a successful \<open>X509_digest\<close>: the loop, the terminating NUL, and
  \<open>lua_pushstring\<close>, which reads the array up to its first NUL. \<open>fingerprint0\<close> is
  the content of the local array \<open>char fingerprint[EVP_MAX_MD_SIZE * 3]\<close> on entry.
\<close>

definition fingerprint_string :: "8 word list \<Rightarrow> string \<Rightarrow> string" where
  "fingerprint_string md fingerprint0 =
    (let md_size = length md;
         fingerprint1 = fingerprint_loop md 0 fingerprint0;
         fingerprint2 = (if md_size > 0 then fingerprint1[3 * (md_size - 1) + 2 := CHR 0x00]
                         else fingerprint1[0 := CHR 0x00])
     in takeWhile (\<lambda>c. c \<noteq> CHR 0x00) fingerprint2)"

text \<open>
  The table entry the block adds. \<open>X509_digest_sha1 peer_cert\<close> stands for
  \<open>X509_digest(peer_cert, EVP_sha1(), md, &md_size)\<close>: \<open>None\<close> when it returns 0,
  else the digest bytes.
\<close>

definition fingerprint_field ::
  "('x \<Rightarrow> 8 word list option) \<Rightarrow> 'x \<Rightarrow> string \<Rightarrow> (string \<times> lua_value) list" where
  "fingerprint_field X509_digest_sha1 peer_cert fingerprint0 =
    (case X509_digest_sha1 peer_cert of
       None \<Rightarrow> []
     | Some md \<Rightarrow> [(''fingerprint'', LString (fingerprint_string md fingerprint0))])"

text \<open>
  The rendering in the words of the specification: each byte as two uppercase
  hexadecimal digits, the pairs joined by colons.
\<close>

definition upper_hex_digit :: "nat \<Rightarrow> char" where
  "upper_hex_digit d = (if d < 10 then char_of (48 + d) else char_of (55 + d))"

definition upper_hex_pair :: "8 word \<Rightarrow> string" where
  "upper_hex_pair b = [upper_hex_digit (unat b div 16), upper_hex_digit (unat b mod 16)]"

fun join_colons :: "string list \<Rightarrow> string" where
  "join_colons [] = []"
| "join_colons [p] = p"
| "join_colons (p # q # ps) = p @ CHR '':'' # join_colons (q # ps)"

definition colon_hex :: "8 word list \<Rightarrow> string" where
  "colon_hex md = join_colons (map upper_hex_pair md)"

subsection \<open>The memory BIO\<close>

text \<open>
  Modelled from the spec: OpenSSL's memory BIO (\<open>BIO_s_mem\<close>, the kind \<open>newCONN\<close>
  creates) is not among the sources. It is the specification's in-memory FIFO byte
  buffer: a write appends, a read removes from the front at most the number of
  bytes asked for. A read from an empty buffer returns -1 and raises the retry-read
  flag, as OpenSSL documents for a memory BIO whose end-of-file value was not set;
  every call first clears the retry flags. The length of a write is a C \<open>int\<close>; a
  negative one is refused with -1.
\<close>

record mem_bio =
  mem_data :: string
  flag_read :: bool
  flag_write :: bool

record 's mem_world =
  bios :: "BIO \<Rightarrow> mem_bio"
  ssl_state :: 's

definition mem_BIO_write :: "BIO \<Rightarrow> 's mem_world \<Rightarrow> string \<Rightarrow> cint \<Rightarrow> cint \<times> 's mem_world" where
  "mem_BIO_write b w data inl =
    (let m = (bios w b)\<lparr>flag_read := False, flag_write := False\<rparr> in
     if sint inl < 0 then (- 1, w\<lparr>bios := (bios w)(b := m)\<rparr>)
     else (inl, w\<lparr>bios := (bios w)(b := m\<lparr>mem_data := mem_data m @ take (nat (sint inl)) data\<rparr>)\<rparr>))"

definition mem_BIO_read :: "BIO \<Rightarrow> 's mem_world \<Rightarrow> nat \<Rightarrow> cint \<times> string \<times> 's mem_world" where
  "mem_BIO_read b w outl =
    (let m = (bios w b)\<lparr>flag_read := False, flag_write := False\<rparr>;
         ret = (if outl > length (mem_data m) then length (mem_data m) else outl)
     in if ret > 0
        then (of_nat ret, take ret (mem_data m),
              w\<lparr>bios := (bios w)(b := m\<lparr>mem_data := drop ret (mem_data m)\<rparr>)\<rparr>)
        else if length (mem_data m) = 0
        then (- 1, [], w\<lparr>bios := (bios w)(b := m\<lparr>flag_read := True\<rparr>)\<rparr>)
        else (of_nat ret, [], w\<lparr>bios := (bios w)(b := m)\<rparr>))"

definition mem_BIO_should_write :: "BIO \<Rightarrow> 's mem_world \<Rightarrow> bool" where
  "mem_BIO_should_write b w = flag_write (bios w b)"

definition mem_BIO_should_read :: "BIO \<Rightarrow> 's mem_world \<Rightarrow> bool" where
  "mem_BIO_should_read b w = flag_read (bios w b)"

text \<open>An engine whose BIOs are memory BIOs: the SSL functions of \<open>E\<close>, the BIO functions above.\<close>

definition with_mem_bios :: "'s mem_world engine \<Rightarrow> 's mem_world engine" where
  "with_mem_bios E =
    E\<lparr>BIO_write := mem_BIO_write, BIO_read := mem_BIO_read,
      BIO_should_write := mem_BIO_should_write, BIO_should_read := mem_BIO_should_read\<rparr>"

subsection \<open>A scripted engine\<close>

text \<open>
  A small engine on memory BIOs, used to run the operations on concrete inputs. Its
  handshake step returns the scripted status \<open>hs_status\<close> and completes the handshake
  when that status is 1; \<open>SSL_read\<close> hands out the pending cleartext \<open>plain\<close>, at most
  the size asked for, and returns \<open>io_status\<close> when there is none; \<open>SSL_write\<close>
  returns \<open>io_status\<close>; \<open>SSL_get_error\<close> reports the scripted code \<open>err_code\<close>.
\<close>

record script =
  hs_finished :: bool
  hs_status :: cint
  io_status :: cint
  err_code :: cint
  plain :: string

definition script_handshake :: "script mem_world \<Rightarrow> cint \<times> script mem_world" where
  "script_handshake w =
    (hs_status (ssl_state w),
     w\<lparr>ssl_state := (ssl_state w)\<lparr>hs_finished := (hs_status (ssl_state w) = 1)\<rparr>\<rparr>)"

definition script_read :: "script mem_world \<Rightarrow> nat \<Rightarrow> cint \<times> string \<times> script mem_world" where
  "script_read w n =
    (let p = plain (ssl_state w) in
     if p \<noteq> [] \<and> 0 < n
     then (of_nat (min n (length p)), take n p,
           w\<lparr>ssl_state := (ssl_state w)\<lparr>plain := drop n p\<rparr>\<rparr>)
     else (if sint (io_status (ssl_state w)) < 0 then io_status (ssl_state w) else - 1, [], w))"

definition script_engine :: "script mem_world engine" where
  "script_engine =
    \<lparr> SSL_is_init_finished = (\<lambda>w. hs_finished (ssl_state w)),
      SSL_accept = script_handshake,
      SSL_connect = script_handshake,
      SSL_read = script_read,
      SSL_write = (\<lambda>w data n. (io_status (ssl_state w), w)),
      SSL_get_error = (\<lambda>w rv. err_code (ssl_state w)),
      ERR_print_errors = (\<lambda>w. w),
      BIO_write = mem_BIO_write,
      BIO_read = mem_BIO_read,
      BIO_should_write = mem_BIO_should_write,
      BIO_should_read = mem_BIO_should_read \<rparr>"

definition fresh_bio :: mem_bio where
  "fresh_bio = \<lparr> mem_data = [], flag_read = False, flag_write = False \<rparr>"

text \<open>
  A connection on the scripted engine: role \<open>srv\<close>, empty BIOs, no error recorded,
  and the given script.
\<close>

definition script_conn :: "cint \<Rightarrow> script \<Rightarrow> script mem_world tls_conn_t" where
  "script_conn srv sc =
    \<lparr> bio_read = Mem_bio_1, bio_write = Mem_bio_2,
      ssl = \<lparr> bios = (\<lambda>b. fresh_bio), ssl_state = sc \<rparr>,
      is_server = srv, error = 0 \<rparr>"

text \<open>
  The contract of the engine's read functions that bounds a read by the buffer: the
  status is never more than the size passed.
\<close>

definition reads_bounded :: "'w engine \<Rightarrow> bool" where
  "reads_bounded E \<longleftrightarrow>
    (\<forall>w n. sint (fst (SSL_read E w n)) \<le> int n) \<and>
    (\<forall>b w n. sint (fst (BIO_read E b w n)) \<le> int n)"

subsection \<open>Classification of a status\<close>

text \<open>
  The condition under which the handler of SSL statuses gets past its assertion:
  assertions are compiled out, or the status is not negative, or the engine's error
  code is one the handler knows.
\<close>

definition ssl_assert_holds :: "bool \<Rightarrow> 'w engine \<Rightarrow> 'w \<Rightarrow> cint \<Rightarrow> bool" where
  "ssl_assert_holds ndebug E s rv \<longleftrightarrow>
     ndebug \<or> 0 \<le> sint rv \<or>
     SSL_get_error E s rv \<in> {SSL_ERROR_NONE, SSL_ERROR_WANT_WRITE, SSL_ERROR_WANT_READ,
                               SSL_ERROR_SSL, SSL_ERROR_SYSCALL}"

text \<open>
  A transient status, in the specification's words: negative, and the engine says
  ``want read'' or ``want write''. For an SSL call the engine says so through
  \<open>SSL_get_error\<close>, for a BIO call through the retry flags of the BIO.
\<close>

definition ssl_transient :: "'w engine \<Rightarrow> 'w \<Rightarrow> cint \<Rightarrow> bool" where
  "ssl_transient E s rv \<longleftrightarrow>
     sint rv < 0 \<and>
     (SSL_get_error E s rv = SSL_ERROR_WANT_READ \<or> SSL_get_error E s rv = SSL_ERROR_WANT_WRITE)"

definition bio_transient :: "'w engine \<Rightarrow> BIO \<Rightarrow> 'w \<Rightarrow> cint \<Rightarrow> bool" where
  "bio_transient E bio s rv \<longleftrightarrow>
     sint rv < 0 \<and> (BIO_should_write E bio s \<or> BIO_should_read E bio s)"

subsection \<open>Scripts\<close>

text \<open>Handshake complete; reads and writes would block.\<close>

definition done_script :: script where
  "done_script = \<lparr> hs_finished = True, hs_status = 1, io_status = - 1,
                   err_code = SSL_ERROR_WANT_READ, plain = [] \<rparr>"

text \<open>Handshake pending: the step returns -1 and the engine wants more input.\<close>

definition pending_script :: script where
  "pending_script = \<lparr> hs_finished = False, hs_status = - 1, io_status = - 1,
                      err_code = SSL_ERROR_WANT_READ, plain = [] \<rparr>"

text \<open>Handshake suspended by a certificate lookup: the step returns -1 with \<open>SSL_ERROR_WANT_X509_LOOKUP\<close>.\<close>

definition lookup_script :: script where
  "lookup_script = \<lparr> hs_finished = False, hs_status = - 1, io_status = - 1,
                     err_code = SSL_ERROR_WANT_X509_LOOKUP, plain = [] \<rparr>"

text \<open>Handshake failing with a protocol error: the step returns -1 with \<open>SSL_ERROR_SSL\<close>.\<close>

definition fatal_script :: script where
  "fatal_script = \<lparr> hs_finished = False, hs_status = - 1, io_status = - 1,
                    err_code = SSL_ERROR_SSL, plain = [] \<rparr>"

text \<open>Handshake shut down by the peer: the step returns 0 and the handshake stays incomplete.\<close>

definition shutdown_script :: script where
  "shutdown_script = \<lparr> hs_finished = False, hs_status = 0, io_status = - 1,
                       err_code = SSL_ERROR_SYSCALL, plain = [] \<rparr>"

text \<open>Handshake complete; reads and writes fail with a protocol error.\<close>

definition broken_script :: script where
  "broken_script = \<lparr> hs_finished = True, hs_status = 1, io_status = - 1,
                     err_code = SSL_ERROR_SSL, plain = [] \<rparr>"

text \<open>The scripted engine with a sink that is full: every BIO write returns -1 and asks for a retry.\<close>

definition retry_engine :: "script mem_world engine" where
  "retry_engine =
     script_engine\<lparr>BIO_write := (\<lambda>b w data n. (- 1, w)), BIO_should_write := (\<lambda>b w. True)\<rparr>"

text \<open>The engine state of \<open>script_conn\<close> after a read from its empty second BIO.\<close>

definition drained_world :: "script \<Rightarrow> script mem_world" where
  "drained_world sc =
     \<lparr> bios = (\<lambda>b. fresh_bio)(Mem_bio_2 := fresh_bio\<lparr>flag_read := True\<rparr>), ssl_state = sc \<rparr>"

text \<open>The engine state of \<open>script_conn\<close> after \<open>data\<close> was written to its first BIO.\<close>

definition fed_world :: "script \<Rightarrow> string \<Rightarrow> script mem_world" where
  "fed_world sc data =
     \<lparr> bios = (\<lambda>b. fresh_bio)(Mem_bio_1 := fresh_bio\<lparr>mem_data := data\<rparr>), ssl_state = sc \<rparr>"

text \<open>A connection on the scripted engine whose first BIO holds \<open>rd\<close> and whose second BIO holds \<open>wr\<close>.\<close>

definition loaded_conn :: "cint \<Rightarrow> script \<Rightarrow> string \<Rightarrow> string \<Rightarrow> script mem_world tls_conn_t" where
  "loaded_conn srv sc rd wr =
    \<lparr> bio_read = Mem_bio_1, bio_write = Mem_bio_2,
      ssl = \<lparr> bios = (\<lambda>b. case b of Mem_bio_1 \<Rightarrow> fresh_bio\<lparr>mem_data := rd\<rparr>
                                  | Mem_bio_2 \<Rightarrow> fresh_bio\<lparr>mem_data := wr\<rparr>),
              ssl_state = sc \<rparr>,
      is_server = srv, error = 0 \<rparr>"

text \<open>Handshake complete, 5000 bytes of cleartext pending.\<close>

definition full_script :: script where
  "full_script = \<lparr> hs_finished = True, hs_status = 1, io_status = - 1,
                   err_code = SSL_ERROR_WANT_READ, plain = replicate 5000 (CHR ''p'') \<rparr>"

subsection \<open>Feeding, then draining\<close>

text \<open>
  \<open>encIn\<close> followed by \<open>encOut\<close> on the connection it leaves, with no call to the
  engine's SSL functions in between: the values \<open>encOut\<close> pushes.
\<close>

definition feed_then_drain ::
  "bool \<Rightarrow> 'w engine \<Rightarrow> 'w tls_conn_t \<Rightarrow> string \<Rightarrow> failure + lua_value list" where
  "feed_then_drain ndebug E tc data =
    (case tls_conn_enc_in ndebug E tc data of
       Inl e \<Rightarrow> Inl e
     | Inr (vs1, tc1, cs1) \<Rightarrow>
         (case tls_conn_enc_out ndebug E tc1 of
            Inl e \<Rightarrow> Inl e
          | Inr (vs2, tc2, cs2) \<Rightarrow> Inr vs2))"

section \<open>Properties\<close>

lemmas consts_defs = SSL_ERROR_NONE_def SSL_ERROR_SSL_def SSL_ERROR_WANT_READ_def
  SSL_ERROR_WANT_WRITE_def SSL_ERROR_WANT_X509_LOOKUP_def SSL_ERROR_SYSCALL_def

lemmas script_defs = script_engine_def script_conn_def script_handshake_def script_read_def
  mem_BIO_write_def mem_BIO_read_def mem_BIO_should_write_def mem_BIO_should_read_def fresh_bio_def

lemmas op_defs = tls_conn_start_def tls_conn_clear_in_def tls_conn_clear_out_def
  tls_conn_clear_in_write_def tls_conn_clear_out_read_def tls_conn_enc_in_def tls_conn_enc_out_def
  tls_handle_ssl_error_x_def tls_handle_bio_error_x_def

subsection \<open>Signed 32-bit values of lengths\<close>

lemma sint_of_nat_le: "sint (of_nat k :: 32 word) \<le> int k"
proof -
  have "sint (of_nat k :: 32 word) = signed_take_bit 31 (int k)"
    by (simp add: signed_of_nat)
  also have "\<dots> \<le> int k"
    by (simp add: signed_take_bit_int_less_eq_self_iff)
  finally show ?thesis .
qed

lemma sint_of_nat_small: "k < 2 ^ 31 \<Longrightarrow> sint (of_nat k :: 32 word) = int k"
proof -
  assume a: "k < 2 ^ 31"
  have "sint (of_nat k :: 32 word) = signed_take_bit 31 (int k)"
    by (simp add: signed_of_nat)
  also have "\<dots> = int k"
    using a by (intro signed_take_bit_int_eq_self) auto
  finally show ?thesis .
qed

lemma script_engine_reads_bounded: "reads_bounded script_engine"
proof -
  have m: "sint (of_nat (min n k) :: 32 word) \<le> int n" for n k
    using sint_of_nat_le [of "min n k"] by linarith
  have a: "sint (fst (script_read w n)) \<le> int n" for w n
    using m [of n "length (plain (ssl_state w))"]
    by (simp add: script_read_def Let_def)
  have b: "sint (fst (mem_BIO_read b w n)) \<le> int n" for b and w :: "script mem_world" and n
    using sint_of_nat_le [of "length (mem_data (bios w b))"] sint_of_nat_le [of n]
    by (auto simp add: mem_BIO_read_def Let_def)
  show ?thesis
    using a b by (simp add: reads_bounded_def script_engine_def)
qed

subsection \<open>The handler of SSL statuses\<close>

lemma tls_handle_ssl_error_x_nonneg:
  "0 \<le> sint rv \<Longrightarrow> tls_handle_ssl_error_x ndebug E s rv = Inr (rv, s)"
  by (simp add: tls_handle_ssl_error_x_def)

lemma tls_handle_ssl_error_x_returns:
  "ssl_assert_holds ndebug E s rv \<Longrightarrow> \<exists>r s'. tls_handle_ssl_error_x ndebug E s rv = Inr (r, s')"
  by (auto simp add: tls_handle_ssl_error_x_def ssl_assert_holds_def Let_def)

lemma tls_handle_ssl_error_x_aborts:
  "\<not> ssl_assert_holds ndebug E s rv \<Longrightarrow> tls_handle_ssl_error_x ndebug E s rv = Inl Assertion_failed"
  by (auto simp add: tls_handle_ssl_error_x_def ssl_assert_holds_def Let_def)

subsection \<open>start\<close>

text \<open>
  What \<open>tls_conn_start\<close> does, case by case. On a connection whose handshake is
  complete it calls no handshake or I/O function of the engine, leaves the
  connection as it is and returns 0. Otherwise it makes exactly one call,
  \<open>SSL_accept\<close> when \<open>is_server\<close> is set and \<open>SSL_connect\<close> when it is not, and
  returns the status of that call unchanged (not the handler's result) whenever the
  handler gets past its assertion.
\<close>

lemma tls_conn_start_cases:
  "(SSL_is_init_finished E (ssl tc) \<longrightarrow>
      tls_conn_start ndebug E tc = Inr ([LNumber 0], tc, [])) \<and>
   (\<not> SSL_is_init_finished E (ssl tc) \<and> is_server tc \<noteq> 0 \<and> SSL_accept E (ssl tc) = (rv, s) \<longrightarrow>
      (if ssl_assert_holds ndebug E s rv
       then \<exists>s'. tls_conn_start ndebug E tc = Inr ([LNumber (sint rv)], tc\<lparr>ssl := s'\<rparr>, [Call_SSL_accept])
       else tls_conn_start ndebug E tc = Inl Assertion_failed)) \<and>
   (\<not> SSL_is_init_finished E (ssl tc) \<and> is_server tc = 0 \<and> SSL_connect E (ssl tc) = (rv, s) \<longrightarrow>
      (if ssl_assert_holds ndebug E s rv
       then \<exists>s'. tls_conn_start ndebug E tc = Inr ([LNumber (sint rv)], tc\<lparr>ssl := s'\<rparr>, [Call_SSL_connect])
       else tls_conn_start ndebug E tc = Inl Assertion_failed))"
proof (intro conjI impI)
  assume "SSL_is_init_finished E (ssl tc)"
  then show "tls_conn_start ndebug E tc = Inr ([LNumber 0], tc, [])"
    by (simp add: tls_conn_start_def)
next
  assume a: "\<not> SSL_is_init_finished E (ssl tc) \<and> is_server tc \<noteq> 0 \<and> SSL_accept E (ssl tc) = (rv, s)"
  show "if ssl_assert_holds ndebug E s rv
       then \<exists>s'. tls_conn_start ndebug E tc = Inr ([LNumber (sint rv)], tc\<lparr>ssl := s'\<rparr>, [Call_SSL_accept])
       else tls_conn_start ndebug E tc = Inl Assertion_failed"
  proof (cases "ssl_assert_holds ndebug E s rv")
    case True
    from tls_handle_ssl_error_x_returns [OF True]
    obtain r s' where "tls_handle_ssl_error_x ndebug E s rv = Inr (r, s')"
      by auto
    with a True show ?thesis by (auto simp add: tls_conn_start_def)
  next
    case False
    with a show ?thesis by (simp add: tls_conn_start_def tls_handle_ssl_error_x_aborts)
  qed
next
  assume a: "\<not> SSL_is_init_finished E (ssl tc) \<and> is_server tc = 0 \<and> SSL_connect E (ssl tc) = (rv, s)"
  show "if ssl_assert_holds ndebug E s rv
       then \<exists>s'. tls_conn_start ndebug E tc = Inr ([LNumber (sint rv)], tc\<lparr>ssl := s'\<rparr>, [Call_SSL_connect])
       else tls_conn_start ndebug E tc = Inl Assertion_failed"
  proof (cases "ssl_assert_holds ndebug E s rv")
    case True
    from tls_handle_ssl_error_x_returns [OF True]
    obtain r s' where "tls_handle_ssl_error_x ndebug E s rv = Inr (r, s')"
      by auto
    with a True show ?thesis by (auto simp add: tls_conn_start_def)
  next
    case False
    with a show ?thesis by (simp add: tls_conn_start_def tls_handle_ssl_error_x_aborts)
  qed
qed

text \<open>
  The three cases on the scripted engine: a completed server, a server whose
  handshake wants more input, and a client whose handshake is suspended by a
  certificate lookup while assertions are compiled in.
\<close>

lemma tls_conn_start_cases_scripted:
  "SSL_is_init_finished script_engine (ssl (script_conn 1 done_script)) \<and>
   tls_conn_start False script_engine (script_conn 1 done_script)
     = Inr ([LNumber 0], script_conn 1 done_script, []) \<and>
   \<not> SSL_is_init_finished script_engine (ssl (script_conn 1 pending_script)) \<and>
   is_server (script_conn 1 pending_script) \<noteq> 0 \<and>
   ssl_assert_holds False script_engine (ssl (script_conn 1 pending_script)) (- 1) \<and>
   (\<exists>s'. tls_conn_start False script_engine (script_conn 1 pending_script)
     = Inr ([LNumber (- 1)], (script_conn 1 pending_script)\<lparr>ssl := s'\<rparr>, [Call_SSL_accept])) \<and>
   \<not> SSL_is_init_finished script_engine (ssl (script_conn 0 lookup_script)) \<and>
   is_server (script_conn 0 lookup_script) = 0 \<and>
   \<not> ssl_assert_holds False script_engine (ssl (script_conn 0 lookup_script)) (- 1) \<and>
   tls_conn_start False script_engine (script_conn 0 lookup_script) = Inl Assertion_failed"
  using tls_conn_start_cases [where E = script_engine and tc = "script_conn 1 done_script"
      and ndebug = False]
    tls_conn_start_cases [where E = script_engine and tc = "script_conn 1 pending_script"
      and rv = "- 1" and s = "ssl (script_conn 1 pending_script)" and ndebug = False]
    tls_conn_start_cases [where E = script_engine and tc = "script_conn 0 lookup_script"
      and rv = "- 1" and s = "ssl (script_conn 0 lookup_script)" and ndebug = False]
  by (simp add: script_defs done_script_def pending_script_def lookup_script_def
      ssl_assert_holds_def consts_defs)


subsection \<open>The handlers on a transient status\<close>

lemma tls_handle_ssl_error_x_transient:
  "ssl_transient E s rv \<Longrightarrow> tls_handle_ssl_error_x ndebug E s rv = Inr (0, s)"
  by (auto simp add: tls_handle_ssl_error_x_def ssl_transient_def Let_def)

lemma tls_handle_bio_error_x_nonneg:
  "0 \<le> sint rv \<Longrightarrow> tls_handle_bio_error_x ndebug E tc bio s rv = Inr (rv, tc)"
  by (simp add: tls_handle_bio_error_x_def)

lemma tls_handle_bio_error_x_transient:
  "bio_transient E bio s rv \<Longrightarrow> tls_handle_bio_error_x ndebug E tc bio s rv = Inr (0, tc)"
  by (auto simp add: tls_handle_bio_error_x_def bio_transient_def)

lemma tls_handle_bio_error_x_fatal:
  "sint rv < 0 \<Longrightarrow> \<not> bio_transient E bio s rv \<Longrightarrow>
   tls_handle_bio_error_x ndebug E tc bio s rv =
     (if ndebug then Inr (rv, tc\<lparr>error := rv\<rparr>) else Inl Assertion_failed)"
  by (auto simp add: tls_handle_bio_error_x_def bio_transient_def consts_defs)

lemma tls_conn_start_error:
  "tls_conn_start ndebug E tc = Inr (vs, tc', cs) \<Longrightarrow> error tc' = error tc"
  by (auto simp add: tls_conn_start_def Let_def split: if_splits prod.splits sum.splits)

lemma tls_conn_clear_in_write_error:
  "tls_conn_clear_in_write ndebug E tc data cs0 = Inr (vs, tc', cs) \<Longrightarrow> error tc' = error tc"
  by (auto simp add: tls_conn_clear_in_write_def Let_def split: if_splits prod.splits sum.splits)

lemma tls_conn_clear_in_error:
  "tls_conn_clear_in ndebug E tc data = Inr (vs, tc', cs) \<Longrightarrow> error tc' = error tc"
  by (auto simp add: tls_conn_clear_in_def Let_def dest: tls_conn_clear_in_write_error
      split: if_splits prod.splits sum.splits)

lemma tls_conn_clear_out_read_error:
  "tls_conn_clear_out_read ndebug E tc cs0 = Inr (vs, tc', cs) \<Longrightarrow> error tc' = error tc"
  by (auto simp add: tls_conn_clear_out_read_def Let_def split: if_splits prod.splits sum.splits)

lemma tls_conn_clear_out_error:
  "tls_conn_clear_out ndebug E tc = Inr (vs, tc', cs) \<Longrightarrow> error tc' = error tc"
  by (auto simp add: tls_conn_clear_out_def Let_def dest: tls_conn_clear_out_read_error
      split: if_splits prod.splits sum.splits)

lemma tls_conn_clear_in_write_calls:
  "tls_conn_clear_in_write ndebug E tc data cs0 = Inr (vs, tc', cs) \<Longrightarrow>
   cs = cs0 @ [Call_SSL_write data (of_nat (length data))]"
  by (auto simp add: tls_conn_clear_in_write_def Let_def split: if_splits prod.splits sum.splits)

lemma tls_conn_clear_out_read_calls:
  "tls_conn_clear_out_read ndebug E tc cs0 = Inr (vs, tc', cs) \<Longrightarrow>
   cs = cs0 @ [Call_SSL_read 4096]"
  by (auto simp add: tls_conn_clear_out_read_def Let_def split: if_splits prod.splits sum.splits)

lemma tls_conn_clear_in_negative:
  assumes "\<not> SSL_is_init_finished E (ssl tc)"
    and "(if is_server tc \<noteq> 0 then SSL_accept E (ssl tc) else SSL_connect E (ssl tc)) = (rv, s)"
    and "sint rv < 0"
  shows "if ssl_assert_holds ndebug E s rv
     then \<exists>s'. tls_conn_clear_in ndebug E tc data =
            Inr ([LNumber (sint rv)], tc\<lparr>ssl := s'\<rparr>,
                 [if is_server tc \<noteq> 0 then Call_SSL_accept else Call_SSL_connect])
     else tls_conn_clear_in ndebug E tc data = Inl Assertion_failed"
proof (cases "ssl_assert_holds ndebug E s rv")
  case True
  from tls_handle_ssl_error_x_returns [OF True]
  obtain r s' where "tls_handle_ssl_error_x ndebug E s rv = Inr (r, s')"
    by auto
  with assms True show ?thesis by (auto simp add: tls_conn_clear_in_def)
next
  case False
  with assms show ?thesis by (simp add: tls_conn_clear_in_def tls_handle_ssl_error_x_aborts)
qed

lemma tls_conn_clear_out_negative:
  assumes "\<not> SSL_is_init_finished E (ssl tc)"
    and "(if is_server tc \<noteq> 0 then SSL_accept E (ssl tc) else SSL_connect E (ssl tc)) = (rv, s)"
    and "sint rv < 0"
  shows "if ssl_assert_holds ndebug E s rv
     then \<exists>s'. tls_conn_clear_out ndebug E tc =
            Inr ([LNumber (sint rv)], tc\<lparr>ssl := s'\<rparr>,
                 [if is_server tc \<noteq> 0 then Call_SSL_accept else Call_SSL_connect])
     else tls_conn_clear_out ndebug E tc = Inl Assertion_failed"
proof (cases "ssl_assert_holds ndebug E s rv")
  case True
  from tls_handle_ssl_error_x_returns [OF True]
  obtain r s' where "tls_handle_ssl_error_x ndebug E s rv = Inr (r, s')"
    by auto
  with assms True show ?thesis by (auto simp add: tls_conn_clear_out_def)
next
  case False
  with assms show ?thesis by (simp add: tls_conn_clear_out_def tls_handle_ssl_error_x_aborts)
qed

lemma tls_conn_clear_in_nonneg:
  assumes "\<not> SSL_is_init_finished E (ssl tc)"
    and "(if is_server tc \<noteq> 0 then SSL_accept E (ssl tc) else SSL_connect E (ssl tc)) = (rv, s)"
    and "0 \<le> sint rv"
  shows "tls_conn_clear_in ndebug E tc data =
     tls_conn_clear_in_write ndebug E (tc\<lparr>ssl := s\<rparr>) data
       [if is_server tc \<noteq> 0 then Call_SSL_accept else Call_SSL_connect]"
  using assms by (simp add: tls_conn_clear_in_def tls_handle_ssl_error_x_nonneg)

lemma tls_conn_clear_out_nonneg:
  assumes "\<not> SSL_is_init_finished E (ssl tc)"
    and "(if is_server tc \<noteq> 0 then SSL_accept E (ssl tc) else SSL_connect E (ssl tc)) = (rv, s)"
    and "0 \<le> sint rv"
  shows "tls_conn_clear_out ndebug E tc =
     tls_conn_clear_out_read ndebug E (tc\<lparr>ssl := s\<rparr>)
       [if is_server tc \<noteq> 0 then Call_SSL_accept else Call_SSL_connect]"
  using assms by (simp add: tls_conn_clear_out_def tls_handle_ssl_error_x_nonneg)

subsection \<open>Cleartext operations before the handshake is complete\<close>

text \<open>
  Claim C3, as the code has it. On a connection whose handshake is not complete,
  \<open>tls_conn_clear_in\<close> and \<open>tls_conn_clear_out\<close> first make the handshake call. The
  test that follows is on the sign of its status, not on the completion of the
  handshake: with a negative status the operation returns that status alone and
  calls neither \<open>SSL_write\<close> nor \<open>SSL_read\<close> (or aborts, when the handler's assertion
  fails); with a status of 0 or more it goes on to \<open>SSL_write\<close> or \<open>SSL_read\<close>.
\<close>

theorem clear_ops_handshake_amended:
  "\<not> SSL_is_init_finished E (ssl tc) \<and>
   (if is_server tc \<noteq> 0 then SSL_accept E (ssl tc) else SSL_connect E (ssl tc)) = (rv, s) \<and>
   c = (if is_server tc \<noteq> 0 then Call_SSL_accept else Call_SSL_connect) \<longrightarrow>
   (sint rv < 0 \<longrightarrow>
      (if ssl_assert_holds ndebug E s rv
       then (\<exists>s'. tls_conn_clear_in ndebug E tc data = Inr ([LNumber (sint rv)], tc\<lparr>ssl := s'\<rparr>, [c])) \<and>
            (\<exists>s'. tls_conn_clear_out ndebug E tc = Inr ([LNumber (sint rv)], tc\<lparr>ssl := s'\<rparr>, [c]))
       else tls_conn_clear_in ndebug E tc data = Inl Assertion_failed \<and>
            tls_conn_clear_out ndebug E tc = Inl Assertion_failed)) \<and>
   (0 \<le> sint rv \<longrightarrow>
      tls_conn_clear_in ndebug E tc data = tls_conn_clear_in_write ndebug E (tc\<lparr>ssl := s\<rparr>) data [c] \<and>
      tls_conn_clear_out ndebug E tc = tls_conn_clear_out_read ndebug E (tc\<lparr>ssl := s\<rparr>) [c] \<and>
      (\<forall>vs tc' cs. tls_conn_clear_in ndebug E tc data = Inr (vs, tc', cs) \<longrightarrow>
         cs = [c, Call_SSL_write data (of_nat (length data))]) \<and>
      (\<forall>vs tc' cs. tls_conn_clear_out ndebug E tc = Inr (vs, tc', cs) \<longrightarrow>
         cs = [c, Call_SSL_read 4096]))"
proof (intro impI, elim conjE)
  assume fin: "\<not> SSL_is_init_finished E (ssl tc)"
    and step: "(if is_server tc \<noteq> 0 then SSL_accept E (ssl tc) else SSL_connect E (ssl tc)) = (rv, s)"
    and c: "c = (if is_server tc \<noteq> 0 then Call_SSL_accept else Call_SSL_connect)"
  have neg: "sint rv < 0 \<longrightarrow>
      (if ssl_assert_holds ndebug E s rv
       then (\<exists>s'. tls_conn_clear_in ndebug E tc data = Inr ([LNumber (sint rv)], tc\<lparr>ssl := s'\<rparr>, [c])) \<and>
            (\<exists>s'. tls_conn_clear_out ndebug E tc = Inr ([LNumber (sint rv)], tc\<lparr>ssl := s'\<rparr>, [c]))
       else tls_conn_clear_in ndebug E tc data = Inl Assertion_failed \<and>
            tls_conn_clear_out ndebug E tc = Inl Assertion_failed)"
    using tls_conn_clear_in_negative [OF fin step, of ndebug data]
      tls_conn_clear_out_negative [OF fin step, of ndebug]
    by (simp add: c)
  have pos: "0 \<le> sint rv \<longrightarrow>
      tls_conn_clear_in ndebug E tc data = tls_conn_clear_in_write ndebug E (tc\<lparr>ssl := s\<rparr>) data [c] \<and>
      tls_conn_clear_out ndebug E tc = tls_conn_clear_out_read ndebug E (tc\<lparr>ssl := s\<rparr>) [c] \<and>
      (\<forall>vs tc' cs. tls_conn_clear_in ndebug E tc data = Inr (vs, tc', cs) \<longrightarrow>
         cs = [c, Call_SSL_write data (of_nat (length data))]) \<and>
      (\<forall>vs tc' cs. tls_conn_clear_out ndebug E tc = Inr (vs, tc', cs) \<longrightarrow>
         cs = [c, Call_SSL_read 4096])"
  proof
    assume nn: "0 \<le> sint rv"
    have i: "tls_conn_clear_in ndebug E tc data = tls_conn_clear_in_write ndebug E (tc\<lparr>ssl := s\<rparr>) data [c]"
      using tls_conn_clear_in_nonneg [OF fin step nn] by (simp add: c)
    have o: "tls_conn_clear_out ndebug E tc = tls_conn_clear_out_read ndebug E (tc\<lparr>ssl := s\<rparr>) [c]"
      using tls_conn_clear_out_nonneg [OF fin step nn] by (simp add: c)
    show "tls_conn_clear_in ndebug E tc data = tls_conn_clear_in_write ndebug E (tc\<lparr>ssl := s\<rparr>) data [c] \<and>
      tls_conn_clear_out ndebug E tc = tls_conn_clear_out_read ndebug E (tc\<lparr>ssl := s\<rparr>) [c] \<and>
      (\<forall>vs tc' cs. tls_conn_clear_in ndebug E tc data = Inr (vs, tc', cs) \<longrightarrow>
         cs = [c, Call_SSL_write data (of_nat (length data))]) \<and>
      (\<forall>vs tc' cs. tls_conn_clear_out ndebug E tc = Inr (vs, tc', cs) \<longrightarrow>
         cs = [c, Call_SSL_read 4096])"
      using i o tls_conn_clear_in_write_calls [of ndebug E "tc\<lparr>ssl := s\<rparr>" data "[c]"]
        tls_conn_clear_out_read_calls [of ndebug E "tc\<lparr>ssl := s\<rparr>" "[c]"]
      by simp
  qed
  from neg pos show "(sint rv < 0 \<longrightarrow>
      (if ssl_assert_holds ndebug E s rv
       then (\<exists>s'. tls_conn_clear_in ndebug E tc data = Inr ([LNumber (sint rv)], tc\<lparr>ssl := s'\<rparr>, [c])) \<and>
            (\<exists>s'. tls_conn_clear_out ndebug E tc = Inr ([LNumber (sint rv)], tc\<lparr>ssl := s'\<rparr>, [c]))
       else tls_conn_clear_in ndebug E tc data = Inl Assertion_failed \<and>
            tls_conn_clear_out ndebug E tc = Inl Assertion_failed)) \<and>
   (0 \<le> sint rv \<longrightarrow>
      tls_conn_clear_in ndebug E tc data = tls_conn_clear_in_write ndebug E (tc\<lparr>ssl := s\<rparr>) data [c] \<and>
      tls_conn_clear_out ndebug E tc = tls_conn_clear_out_read ndebug E (tc\<lparr>ssl := s\<rparr>) [c] \<and>
      (\<forall>vs tc' cs. tls_conn_clear_in ndebug E tc data = Inr (vs, tc', cs) \<longrightarrow>
         cs = [c, Call_SSL_write data (of_nat (length data))]) \<and>
      (\<forall>vs tc' cs. tls_conn_clear_out ndebug E tc = Inr (vs, tc', cs) \<longrightarrow>
         cs = [c, Call_SSL_read 4096]))"
    by blast
qed

text \<open>
  Claim C3 as stated fails when the handshake call returns 0 (the handshake was shut
  down) and the handshake is still incomplete: both operations go on to call
  \<open>SSL_write\<close> and \<open>SSL_read\<close>.
\<close>

theorem clear_ops_handshake_counterexample:
  "\<not> SSL_is_init_finished script_engine (ssl (script_conn 0 shutdown_script)) \<and>
   tls_conn_clear_in False script_engine (script_conn 0 shutdown_script) ''hi'' =
     Inr ([LNumber (- 1)], script_conn 0 shutdown_script,
          [Call_SSL_connect, Call_SSL_write ''hi'' 2]) \<and>
   tls_conn_clear_out False script_engine (script_conn 0 shutdown_script) =
     Inr ([LNumber (- 1), LString []], script_conn 0 shutdown_script,
          [Call_SSL_connect, Call_SSL_read 4096])"
  by (simp add: op_defs script_defs shutdown_script_def consts_defs)

text \<open>The two branches on the scripted engine: a pending handshake (-1, want read) and one shut down (0).\<close>

theorem clear_ops_handshake_amended_witness:
  "\<not> SSL_is_init_finished script_engine (ssl (script_conn 0 pending_script)) \<and>
   SSL_connect script_engine (ssl (script_conn 0 pending_script))
     = (- 1, ssl (script_conn 0 pending_script)) \<and>
   ssl_assert_holds False script_engine (ssl (script_conn 0 pending_script)) (- 1) \<and>
   (\<exists>s'. tls_conn_clear_in False script_engine (script_conn 0 pending_script) ''hi'' =
      Inr ([LNumber (- 1)], (script_conn 0 pending_script)\<lparr>ssl := s'\<rparr>, [Call_SSL_connect])) \<and>
   (\<exists>s'. tls_conn_clear_out False script_engine (script_conn 0 pending_script) =
      Inr ([LNumber (- 1)], (script_conn 0 pending_script)\<lparr>ssl := s'\<rparr>, [Call_SSL_connect])) \<and>
   \<not> SSL_is_init_finished script_engine (ssl (script_conn 0 shutdown_script)) \<and>
   SSL_connect script_engine (ssl (script_conn 0 shutdown_script))
     = (0, ssl (script_conn 0 shutdown_script)) \<and>
   tls_conn_clear_in False script_engine (script_conn 0 shutdown_script) ''hi'' =
     tls_conn_clear_in_write False script_engine (script_conn 0 shutdown_script) ''hi'' [Call_SSL_connect] \<and>
   tls_conn_clear_out False script_engine (script_conn 0 shutdown_script) =
     tls_conn_clear_out_read False script_engine (script_conn 0 shutdown_script) [Call_SSL_connect]"
  using clear_ops_handshake_amended [where E = script_engine and tc = "script_conn 0 pending_script"
      and rv = "- 1" and s = "ssl (script_conn 0 pending_script)" and ndebug = False
      and c = Call_SSL_connect and data = "''hi''"]
    clear_ops_handshake_amended [where E = script_engine and tc = "script_conn 0 shutdown_script"
      and rv = 0 and s = "ssl (script_conn 0 shutdown_script)" and ndebug = False
      and c = Call_SSL_connect and data = "''hi''"]
  by (simp add: script_defs pending_script_def shutdown_script_def ssl_assert_holds_def consts_defs)


subsection \<open>A fatal SSL status\<close>

text \<open>
  Claim C1 at a failing input. A client whose handshake call returns -1 with
  \<open>SSL_ERROR_SSL\<close>, and a connected client whose \<open>SSL_write\<close> and \<open>SSL_read\<close> return -1
  with \<open>SSL_ERROR_SSL\<close>: the operation returns -1 and the connection is as before,
  with no error recorded.
\<close>

theorem ssl_fatal_status_not_recorded:
  "tls_conn_start False script_engine (script_conn 0 fatal_script) =
     Inr ([LNumber (- 1)], script_conn 0 fatal_script, [Call_SSL_connect]) \<and>
   tls_conn_clear_in False script_engine (script_conn 0 broken_script) ''hi'' =
     Inr ([LNumber (- 1)], script_conn 0 broken_script, [Call_SSL_write ''hi'' 2]) \<and>
   tls_conn_clear_out False script_engine (script_conn 0 broken_script) =
     Inr ([LNumber (- 1), LString []], script_conn 0 broken_script, [Call_SSL_read 4096]) \<and>
   tls_conn_get_error (script_conn 0 fatal_script) = LNil \<and>
   tls_conn_get_error (script_conn 0 broken_script) = LNil"
  by (simp add: op_defs script_defs fatal_script_def broken_script_def consts_defs
      tls_conn_get_error_def)

subsection \<open>Transient statuses\<close>

lemma tls_conn_start_transient:
  assumes "\<not> SSL_is_init_finished E (ssl tc)"
    and "(if is_server tc \<noteq> 0 then SSL_accept E (ssl tc) else SSL_connect E (ssl tc)) = (rv, s)"
    and "ssl_transient E s rv"
  shows "tls_conn_start ndebug E tc =
     Inr ([LNumber (sint rv)], tc\<lparr>ssl := s\<rparr>,
          [if is_server tc \<noteq> 0 then Call_SSL_accept else Call_SSL_connect])"
  using assms by (simp add: tls_conn_start_def tls_handle_ssl_error_x_transient)

lemma tls_conn_clear_in_transient:
  assumes "\<not> SSL_is_init_finished E (ssl tc)"
    and "(if is_server tc \<noteq> 0 then SSL_accept E (ssl tc) else SSL_connect E (ssl tc)) = (rv, s)"
    and "ssl_transient E s rv"
  shows "tls_conn_clear_in ndebug E tc data =
     Inr ([LNumber (sint rv)], tc\<lparr>ssl := s\<rparr>,
          [if is_server tc \<noteq> 0 then Call_SSL_accept else Call_SSL_connect])"
  using assms by (simp add: tls_conn_clear_in_def tls_handle_ssl_error_x_transient ssl_transient_def)

lemma tls_conn_clear_out_transient:
  assumes "\<not> SSL_is_init_finished E (ssl tc)"
    and "(if is_server tc \<noteq> 0 then SSL_accept E (ssl tc) else SSL_connect E (ssl tc)) = (rv, s)"
    and "ssl_transient E s rv"
  shows "tls_conn_clear_out ndebug E tc =
     Inr ([LNumber (sint rv)], tc\<lparr>ssl := s\<rparr>,
          [if is_server tc \<noteq> 0 then Call_SSL_accept else Call_SSL_connect])"
  using assms by (simp add: tls_conn_clear_out_def tls_handle_ssl_error_x_transient ssl_transient_def)

lemma tls_conn_clear_in_write_transient:
  assumes "SSL_write E (ssl tc) data (of_nat (length data)) = (rv, s)"
    and "ssl_transient E s rv"
  shows "tls_conn_clear_in_write ndebug E tc data cs =
     Inr ([LNumber (sint rv)], tc\<lparr>ssl := s\<rparr>, cs @ [Call_SSL_write data (of_nat (length data))])"
  using assms by (simp add: tls_conn_clear_in_write_def tls_handle_ssl_error_x_transient)

lemma tls_conn_clear_out_read_transient:
  assumes "SSL_read E (ssl tc) 4096 = (rv, pool, s)"
    and "ssl_transient E s rv"
  shows "tls_conn_clear_out_read ndebug E tc cs =
     Inr ([LNumber (sint rv), LString []], tc\<lparr>ssl := s\<rparr>, cs @ [Call_SSL_read 4096])"
  using assms
  by (simp add: tls_conn_clear_out_read_def tls_handle_ssl_error_x_transient ssl_transient_def)

lemma tls_conn_enc_in_quiet:
  assumes "BIO_write E (bio_read tc) (ssl tc) data (of_nat (length data)) = (rv, s)"
    and "0 \<le> sint rv \<or> bio_transient E (bio_read tc) s rv"
  shows "tls_conn_enc_in ndebug E tc data =
     Inr ([LNumber (sint rv)], tc\<lparr>ssl := s\<rparr>,
          [Call_BIO_write (bio_read tc) data (of_nat (length data))])"
  using assms
  by (auto simp add: tls_conn_enc_in_def tls_handle_bio_error_x_transient
      tls_handle_bio_error_x_nonneg)

lemma tls_conn_enc_out_transient:
  assumes "BIO_read E (bio_write tc) (ssl tc) 4096 = (rv, pool, s)"
    and "bio_transient E (bio_write tc) s rv"
  shows "tls_conn_enc_out ndebug E tc =
     Inr ([LNumber (sint rv), LString []], tc\<lparr>ssl := s\<rparr>, [Call_BIO_read (bio_write tc) 4096])"
  using assms
  by (simp add: tls_conn_enc_out_def tls_handle_bio_error_x_transient bio_transient_def)

lemma tls_conn_enc_out_nonneg:
  assumes "BIO_read E (bio_write tc) (ssl tc) 4096 = (rv, pool, s)"
    and "0 \<le> sint rv"
  shows "tls_conn_enc_out ndebug E tc =
     Inr ([LNumber (sint rv),
           if 0 < sint rv then LString (take (nat (sint rv)) pool) else LString []],
          tc\<lparr>ssl := s\<rparr>, [Call_BIO_read (bio_write tc) 4096])"
  using assms
  by (simp add: tls_conn_enc_out_def tls_handle_bio_error_x_nonneg)

text \<open>
  Claim C2. Both handlers map a transient status to 0. An operation whose engine call
  returns a transient status returns that status and changes nothing of the
  connection but the engine state: \<open>error\<close>, and so the result of getError, is as
  before. The three operations on the SSL object never change \<open>error\<close> at all.
\<close>

theorem transient_status_records_no_error:
  "(ssl_transient E s rv \<longrightarrow> tls_handle_ssl_error_x ndebug E s rv = Inr (0, s)) \<and>
   (bio_transient E bio s rv \<longrightarrow> tls_handle_bio_error_x ndebug E tc bio s rv = Inr (0, tc)) \<and>
   (\<not> SSL_is_init_finished E (ssl tc) \<and>
    (if is_server tc \<noteq> 0 then SSL_accept E (ssl tc) else SSL_connect E (ssl tc)) = (rv, s) \<and>
    c = (if is_server tc \<noteq> 0 then Call_SSL_accept else Call_SSL_connect) \<and>
    ssl_transient E s rv \<longrightarrow>
      tls_conn_start ndebug E tc = Inr ([LNumber (sint rv)], tc\<lparr>ssl := s\<rparr>, [c]) \<and>
      tls_conn_clear_in ndebug E tc data = Inr ([LNumber (sint rv)], tc\<lparr>ssl := s\<rparr>, [c]) \<and>
      tls_conn_clear_out ndebug E tc = Inr ([LNumber (sint rv)], tc\<lparr>ssl := s\<rparr>, [c])) \<and>
   (SSL_is_init_finished E (ssl tc) \<and>
    SSL_write E (ssl tc) data (of_nat (length data)) = (rv, s) \<and> ssl_transient E s rv \<longrightarrow>
      tls_conn_clear_in ndebug E tc data =
        Inr ([LNumber (sint rv)], tc\<lparr>ssl := s\<rparr>, [Call_SSL_write data (of_nat (length data))])) \<and>
   (SSL_is_init_finished E (ssl tc) \<and>
    SSL_read E (ssl tc) 4096 = (rv, pool, s) \<and> ssl_transient E s rv \<longrightarrow>
      tls_conn_clear_out ndebug E tc =
        Inr ([LNumber (sint rv), LString []], tc\<lparr>ssl := s\<rparr>, [Call_SSL_read 4096])) \<and>
   (BIO_write E (bio_read tc) (ssl tc) data (of_nat (length data)) = (rv, s) \<and>
    bio_transient E (bio_read tc) s rv \<longrightarrow>
      tls_conn_enc_in ndebug E tc data =
        Inr ([LNumber (sint rv)], tc\<lparr>ssl := s\<rparr>,
             [Call_BIO_write (bio_read tc) data (of_nat (length data))])) \<and>
   (BIO_read E (bio_write tc) (ssl tc) 4096 = (rv, pool, s) \<and>
    bio_transient E (bio_write tc) s rv \<longrightarrow>
      tls_conn_enc_out ndebug E tc =
        Inr ([LNumber (sint rv), LString []], tc\<lparr>ssl := s\<rparr>, [Call_BIO_read (bio_write tc) 4096])) \<and>
   error (tc\<lparr>ssl := s\<rparr>) = error tc \<and>
   tls_conn_get_error (tc\<lparr>ssl := s\<rparr>) = tls_conn_get_error tc \<and>
   (\<forall>vs tc' cs.
      tls_conn_start ndebug E tc = Inr (vs, tc', cs) \<or>
      tls_conn_clear_in ndebug E tc data = Inr (vs, tc', cs) \<or>
      tls_conn_clear_out ndebug E tc = Inr (vs, tc', cs) \<longrightarrow> error tc' = error tc)"
proof (intro conjI impI allI; (elim conjE)?)
  show "error (tc\<lparr>ssl := s\<rparr>) = error tc" by simp
  show "tls_conn_get_error (tc\<lparr>ssl := s\<rparr>) = tls_conn_get_error tc"
    by (simp add: tls_conn_get_error_def)
next
  assume "ssl_transient E s rv"
  then show "tls_handle_ssl_error_x ndebug E s rv = Inr (0, s)"
    by (rule tls_handle_ssl_error_x_transient)
next
  assume "bio_transient E bio s rv"
  then show "tls_handle_bio_error_x ndebug E tc bio s rv = Inr (0, tc)"
    by (rule tls_handle_bio_error_x_transient)
next
  fix vs tc' cs
  assume "tls_conn_start ndebug E tc = Inr (vs, tc', cs) \<or>
      tls_conn_clear_in ndebug E tc data = Inr (vs, tc', cs) \<or>
      tls_conn_clear_out ndebug E tc = Inr (vs, tc', cs)"
  then show "error tc' = error tc"
    using tls_conn_start_error tls_conn_clear_in_error tls_conn_clear_out_error by blast
next
  assume "\<not> SSL_is_init_finished E (ssl tc)"
    "(if is_server tc \<noteq> 0 then SSL_accept E (ssl tc) else SSL_connect E (ssl tc)) = (rv, s)"
    "c = (if is_server tc \<noteq> 0 then Call_SSL_accept else Call_SSL_connect)"
    "ssl_transient E s rv"
  then show "tls_conn_start ndebug E tc = Inr ([LNumber (sint rv)], tc\<lparr>ssl := s\<rparr>, [c])"
    "tls_conn_clear_in ndebug E tc data = Inr ([LNumber (sint rv)], tc\<lparr>ssl := s\<rparr>, [c])"
    "tls_conn_clear_out ndebug E tc = Inr ([LNumber (sint rv)], tc\<lparr>ssl := s\<rparr>, [c])"
    by (simp_all add: tls_conn_start_transient tls_conn_clear_in_transient
        tls_conn_clear_out_transient)
next
  assume "SSL_is_init_finished E (ssl tc)"
    "SSL_write E (ssl tc) data (of_nat (length data)) = (rv, s)" "ssl_transient E s rv"
  then show "tls_conn_clear_in ndebug E tc data =
        Inr ([LNumber (sint rv)], tc\<lparr>ssl := s\<rparr>, [Call_SSL_write data (of_nat (length data))])"
    by (simp add: tls_conn_clear_in_def tls_conn_clear_in_write_transient)
next
  assume "SSL_is_init_finished E (ssl tc)"
    "SSL_read E (ssl tc) 4096 = (rv, pool, s)" "ssl_transient E s rv"
  then show "tls_conn_clear_out ndebug E tc =
        Inr ([LNumber (sint rv), LString []], tc\<lparr>ssl := s\<rparr>, [Call_SSL_read 4096])"
    by (simp add: tls_conn_clear_out_def tls_conn_clear_out_read_transient)
next
  assume "BIO_write E (bio_read tc) (ssl tc) data (of_nat (length data)) = (rv, s)"
    "bio_transient E (bio_read tc) s rv"
  then show "tls_conn_enc_in ndebug E tc data =
        Inr ([LNumber (sint rv)], tc\<lparr>ssl := s\<rparr>,
             [Call_BIO_write (bio_read tc) data (of_nat (length data))])"
    by (simp add: tls_conn_enc_in_quiet)
next
  assume "BIO_read E (bio_write tc) (ssl tc) 4096 = (rv, pool, s)"
    "bio_transient E (bio_write tc) s rv"
  then show "tls_conn_enc_out ndebug E tc =
        Inr ([LNumber (sint rv), LString []], tc\<lparr>ssl := s\<rparr>, [Call_BIO_read (bio_write tc) 4096])"
    by (simp add: tls_conn_enc_out_transient)
qed

text \<open>
  The conjuncts of C2 on the scripted engine: a pending handshake, a completed one
  whose read and write would block, a read from the empty second BIO, and a write to a
  full sink.
\<close>

theorem transient_status_records_no_error_witness:
  "ssl_transient script_engine (ssl (script_conn 0 pending_script)) (- 1) \<and>
   SSL_connect script_engine (ssl (script_conn 0 pending_script))
     = (- 1, ssl (script_conn 0 pending_script)) \<and>
   tls_handle_ssl_error_x False script_engine (ssl (script_conn 0 pending_script)) (- 1)
     = Inr (0, ssl (script_conn 0 pending_script)) \<and>
   tls_conn_start False script_engine (script_conn 0 pending_script)
     = Inr ([LNumber (- 1)], script_conn 0 pending_script, [Call_SSL_connect]) \<and>
   tls_conn_clear_in False script_engine (script_conn 0 pending_script) ''hi''
     = Inr ([LNumber (- 1)], script_conn 0 pending_script, [Call_SSL_connect]) \<and>
   tls_conn_clear_out False script_engine (script_conn 0 pending_script)
     = Inr ([LNumber (- 1)], script_conn 0 pending_script, [Call_SSL_connect]) \<and>
   SSL_is_init_finished script_engine (ssl (script_conn 0 done_script)) \<and>
   ssl_transient script_engine (ssl (script_conn 0 done_script)) (- 1) \<and>
   tls_conn_clear_in False script_engine (script_conn 0 done_script) ''hi''
     = Inr ([LNumber (- 1)], script_conn 0 done_script, [Call_SSL_write ''hi'' 2]) \<and>
   tls_conn_clear_out False script_engine (script_conn 0 done_script)
     = Inr ([LNumber (- 1), LString []], script_conn 0 done_script, [Call_SSL_read 4096]) \<and>
   BIO_read script_engine Mem_bio_2 (ssl (script_conn 0 done_script)) 4096
     = (- 1, [], drained_world done_script) \<and>
   bio_transient script_engine Mem_bio_2 (drained_world done_script) (- 1) \<and>
   tls_handle_bio_error_x False script_engine (script_conn 0 done_script) Mem_bio_2
       (drained_world done_script) (- 1)
     = Inr (0, script_conn 0 done_script) \<and>
   tls_conn_enc_out False script_engine (script_conn 0 done_script)
     = Inr ([LNumber (- 1), LString []],
            (script_conn 0 done_script)\<lparr>ssl := drained_world done_script\<rparr>,
            [Call_BIO_read Mem_bio_2 4096]) \<and>
   bio_transient retry_engine Mem_bio_1 (ssl (script_conn 0 done_script)) (- 1) \<and>
   tls_conn_enc_in False retry_engine (script_conn 0 done_script) ''hi''
     = Inr ([LNumber (- 1)], script_conn 0 done_script, [Call_BIO_write Mem_bio_1 ''hi'' 2])"
  using
    transient_status_records_no_error [where E = script_engine
      and tc = "script_conn 0 pending_script" and rv = "- 1"
      and s = "ssl (script_conn 0 pending_script)" and ndebug = False
      and c = Call_SSL_connect and data = "''hi''"]
    transient_status_records_no_error [where E = script_engine
      and tc = "script_conn 0 done_script" and rv = "- 1"
      and s = "ssl (script_conn 0 done_script)" and ndebug = False and pool = "[]"
      and data = "''hi''"]
    transient_status_records_no_error [where E = script_engine
      and tc = "script_conn 0 done_script" and rv = "- 1" and bio = Mem_bio_2
      and s = "drained_world done_script" and ndebug = False and pool = "[]"]
    transient_status_records_no_error [where E = retry_engine
      and tc = "script_conn 0 done_script" and rv = "- 1" and bio = Mem_bio_1
      and s = "ssl (script_conn 0 done_script)" and ndebug = False and data = "''hi''"]
  by (simp add: script_defs pending_script_def done_script_def ssl_transient_def bio_transient_def
      retry_engine_def drained_world_def consts_defs fun_upd_def)

subsection \<open>getError and clearError\<close>

lemma tls_conn_get_error_nil: "tls_conn_get_error tc = LNil \<longleftrightarrow> error tc = 0"
  by (simp add: tls_conn_get_error_def)

text \<open>
  Claim C9. clearError sets \<open>error\<close> to 0, getError returns \<open>nil\<close> exactly when
  \<open>error\<close> is 0, and from a connection with no error recorded none of the operations
  records one unless a BIO call fails fatally: start and the cleartext operations
  never do, and the BIO operations do not when the status of the BIO call is 0 or
  more or is transient.
\<close>

theorem cleared_error_stays_cleared:
  "tls_conn_get_error (tls_conn_clear_error tc0) = LNil \<and>
   error (tls_conn_clear_error tc0) = 0 \<and>
   (tls_conn_get_error tc = LNil \<longleftrightarrow> error tc = 0) \<and>
   (error tc = 0 \<longrightarrow>
     (\<forall>vs tc' cs.
        tls_conn_start ndebug E tc = Inr (vs, tc', cs) \<or>
        tls_conn_clear_in ndebug E tc data = Inr (vs, tc', cs) \<or>
        tls_conn_clear_out ndebug E tc = Inr (vs, tc', cs) \<longrightarrow> tls_conn_get_error tc' = LNil) \<and>
     (BIO_write E (bio_read tc) (ssl tc) data (of_nat (length data)) = (rv, s) \<and>
      (0 \<le> sint rv \<or> bio_transient E (bio_read tc) s rv) \<longrightarrow>
        tls_conn_enc_in ndebug E tc data =
          Inr ([LNumber (sint rv)], tc\<lparr>ssl := s\<rparr>,
               [Call_BIO_write (bio_read tc) data (of_nat (length data))]) \<and>
        tls_conn_get_error (tc\<lparr>ssl := s\<rparr>) = LNil) \<and>
     (BIO_read E (bio_write tc) (ssl tc) 4096 = (rv, pool, s) \<and>
      (0 \<le> sint rv \<or> bio_transient E (bio_write tc) s rv) \<longrightarrow>
        (\<exists>bytes. tls_conn_enc_out ndebug E tc =
           Inr ([LNumber (sint rv), LString bytes], tc\<lparr>ssl := s\<rparr>,
                [Call_BIO_read (bio_write tc) 4096])) \<and>
        tls_conn_get_error (tc\<lparr>ssl := s\<rparr>) = LNil))"
proof (intro conjI impI allI)
  show "tls_conn_get_error (tls_conn_clear_error tc0) = LNil"
    by (simp add: tls_conn_get_error_def tls_conn_clear_error_def)
  show "error (tls_conn_clear_error tc0) = 0"
    by (simp add: tls_conn_clear_error_def)
  show "tls_conn_get_error tc = LNil \<longleftrightarrow> error tc = 0"
    by (simp add: tls_conn_get_error_def)
next
  fix vs tc' cs
  assume z: "error tc = 0"
    and "tls_conn_start ndebug E tc = Inr (vs, tc', cs) \<or>
        tls_conn_clear_in ndebug E tc data = Inr (vs, tc', cs) \<or>
        tls_conn_clear_out ndebug E tc = Inr (vs, tc', cs)"
  then have "error tc' = error tc"
    using tls_conn_start_error tls_conn_clear_in_error tls_conn_clear_out_error by blast
  with z show "tls_conn_get_error tc' = LNil"
    by (simp add: tls_conn_get_error_def)
next
  assume "error tc = 0"
  then show "tls_conn_get_error (tc\<lparr>ssl := s\<rparr>) = LNil" "tls_conn_get_error (tc\<lparr>ssl := s\<rparr>) = LNil"
    by (simp_all add: tls_conn_get_error_def)
next
  assume h: "BIO_write E (bio_read tc) (ssl tc) data (of_nat (length data)) = (rv, s) \<and>
      (0 \<le> sint rv \<or> bio_transient E (bio_read tc) s rv)"
  then show "tls_conn_enc_in ndebug E tc data =
     Inr ([LNumber (sint rv)], tc\<lparr>ssl := s\<rparr>,
          [Call_BIO_write (bio_read tc) data (of_nat (length data))])"
    by (intro tls_conn_enc_in_quiet) auto
next
  assume h: "BIO_read E (bio_write tc) (ssl tc) 4096 = (rv, pool, s) \<and>
      (0 \<le> sint rv \<or> bio_transient E (bio_write tc) s rv)"
  then show "\<exists>bytes. tls_conn_enc_out ndebug E tc =
           Inr ([LNumber (sint rv), LString bytes], tc\<lparr>ssl := s\<rparr>,
                [Call_BIO_read (bio_write tc) 4096])"
    using tls_conn_enc_out_nonneg [of E tc rv pool s ndebug]
      tls_conn_enc_out_transient [of E tc rv pool s ndebug] by auto
qed

text \<open>On the scripted engine: an error of -1 cleared, then start, a write of two bytes and a read that finds nothing.\<close>

theorem cleared_error_stays_cleared_witness:
  "error (script_conn 0 done_script) = 0 \<and>
   tls_conn_get_error ((script_conn 0 done_script)\<lparr>error := - 1\<rparr>) = LNumber (- 1) \<and>
   tls_conn_get_error (tls_conn_clear_error ((script_conn 0 done_script)\<lparr>error := - 1\<rparr>)) = LNil \<and>
   tls_conn_start False script_engine (script_conn 0 done_script)
     = Inr ([LNumber 0], script_conn 0 done_script, []) \<and>
   tls_conn_get_error (script_conn 0 done_script) = LNil \<and>
   BIO_write script_engine (bio_read (script_conn 0 done_script)) (ssl (script_conn 0 done_script))
       ''hi'' (of_nat (length ''hi''))
     = (2, fed_world done_script ''hi'') \<and>
   tls_conn_enc_in False script_engine (script_conn 0 done_script) ''hi''
     = Inr ([LNumber 2], (script_conn 0 done_script)\<lparr>ssl := fed_world done_script ''hi''\<rparr>,
            [Call_BIO_write Mem_bio_1 ''hi'' 2]) \<and>
   tls_conn_get_error ((script_conn 0 done_script)\<lparr>ssl := fed_world done_script ''hi''\<rparr>) = LNil \<and>
   BIO_read script_engine (bio_write (script_conn 0 done_script)) (ssl (script_conn 0 done_script)) 4096
     = (- 1, [], drained_world done_script) \<and>
   bio_transient script_engine (bio_write (script_conn 0 done_script))
     (drained_world done_script) (- 1) \<and>
   (\<exists>bytes. tls_conn_enc_out False script_engine (script_conn 0 done_script)
     = Inr ([LNumber (- 1), LString bytes],
            (script_conn 0 done_script)\<lparr>ssl := drained_world done_script\<rparr>,
            [Call_BIO_read Mem_bio_2 4096])) \<and>
   tls_conn_get_error ((script_conn 0 done_script)\<lparr>ssl := drained_world done_script\<rparr>) = LNil"
proof -
  let ?tc = "script_conn 0 done_script"
  have e: "error ?tc = 0"
    by (simp add: script_conn_def)
  have g: "tls_conn_get_error (?tc\<lparr>error := - 1\<rparr>) = LNumber (- 1)"
    by (simp add: tls_conn_get_error_def)
  have st: "tls_conn_start False script_engine ?tc = Inr ([LNumber 0], ?tc, [])"
    by (simp add: tls_conn_start_def script_defs done_script_def)
  have w: "BIO_write script_engine (bio_read ?tc) (ssl ?tc) ''hi'' (of_nat (length ''hi''))
             = (2, fed_world done_script ''hi'')"
    by (simp add: script_defs fed_world_def Let_def)
  have r: "BIO_read script_engine (bio_write ?tc) (ssl ?tc) 4096
             = (- 1, [], drained_world done_script)"
    by (simp add: script_defs drained_world_def Let_def)
  have t: "bio_transient script_engine (bio_write ?tc) (drained_world done_script) (- 1)"
    by (simp add: bio_transient_def script_defs drained_world_def)
  have b: "bio_read ?tc = Mem_bio_1" "bio_write ?tc = Mem_bio_2"
    by (simp_all add: script_conn_def)
  note A = cleared_error_stays_cleared [where E = script_engine and tc = ?tc
      and tc0 = "?tc\<lparr>error := - 1\<rparr>" and ndebug = False
      and data = "''hi''" and rv = 2 and s = "fed_world done_script ''hi''"]
  note B = cleared_error_stays_cleared [where E = script_engine and tc = ?tc
      and ndebug = False and pool = "[]" and rv = "- 1" and s = "drained_world done_script"]
  from A have a1: "tls_conn_get_error (tls_conn_clear_error (?tc\<lparr>error := - 1\<rparr>)) = LNil"
    by blast
  from A e st have a2: "tls_conn_get_error ?tc = LNil"
    by blast
  have p: "0 \<le> sint (2 :: cint)"
    by simp
  from A e w p have a3: "tls_conn_enc_in False script_engine ?tc ''hi''
     = Inr ([LNumber (sint (2 :: cint))], ?tc\<lparr>ssl := fed_world done_script ''hi''\<rparr>,
            [Call_BIO_write (bio_read ?tc) ''hi'' (of_nat (length ''hi''))]) \<and>
     tls_conn_get_error (?tc\<lparr>ssl := fed_world done_script ''hi''\<rparr>) = LNil"
    by blast
  from B e r t have a4: "(\<exists>bytes. tls_conn_enc_out False script_engine ?tc
     = Inr ([LNumber (sint (- 1 :: cint)), LString bytes], ?tc\<lparr>ssl := drained_world done_script\<rparr>,
            [Call_BIO_read (bio_write ?tc) 4096])) \<and>
     tls_conn_get_error (?tc\<lparr>ssl := drained_world done_script\<rparr>) = LNil"
    by blast
  from a3 have a3': "tls_conn_enc_in False script_engine ?tc ''hi''
     = Inr ([LNumber 2], ?tc\<lparr>ssl := fed_world done_script ''hi''\<rparr>,
            [Call_BIO_write Mem_bio_1 ''hi'' 2]) \<and>
     tls_conn_get_error (?tc\<lparr>ssl := fed_world done_script ''hi''\<rparr>) = LNil"
    by (simp add: b)
  from a4 have a4': "(\<exists>bytes. tls_conn_enc_out False script_engine ?tc
     = Inr ([LNumber (- 1), LString bytes], ?tc\<lparr>ssl := drained_world done_script\<rparr>,
            [Call_BIO_read Mem_bio_2 4096])) \<and>
     tls_conn_get_error (?tc\<lparr>ssl := drained_world done_script\<rparr>) = LNil"
    by (simp add: b)
  from e g a1 st a2 w a3' r t a4' show ?thesis
    by blast
qed

subsection \<open>The size of a read\<close>

lemma reads_bounded_BIO_read:
  "reads_bounded E \<Longrightarrow> BIO_read E b w n = (rv, pool, s) \<Longrightarrow> sint rv \<le> int n"
  by (metis fst_conv reads_bounded_def)

lemma reads_bounded_SSL_read:
  "reads_bounded E \<Longrightarrow> SSL_read E w n = (rv, pool, s) \<Longrightarrow> sint rv \<le> int n"
  by (metis fst_conv reads_bounded_def)

lemma tls_conn_enc_out_bounded:
  assumes "reads_bounded E" and "tls_conn_enc_out ndebug E tc = Inr (vs, tc', cs)"
  shows "cs = [Call_BIO_read (bio_write tc) 4096] \<and>
         (\<exists>n bytes. vs = [LNumber n, LString bytes] \<and> n \<le> 4096 \<and> length bytes \<le> 4096)"
proof -
  obtain rv pool s where r: "BIO_read E (bio_write tc) (ssl tc) 4096 = (rv, pool, s)"
    by (cases "BIO_read E (bio_write tc) (ssl tc) 4096") auto
  from reads_bounded_BIO_read [OF assms(1) r] have b: "sint rv \<le> 4096"
    by simp
  from assms(2) r b show ?thesis
    by (auto simp add: tls_conn_enc_out_def split: sum.splits if_splits)
qed

lemma tls_conn_clear_out_read_bounded:
  assumes "reads_bounded E" and "tls_conn_clear_out_read ndebug E tc cs0 = Inr (vs, tc', cs)"
  shows "cs = cs0 @ [Call_SSL_read 4096] \<and>
         (\<exists>n bytes. vs = [LNumber n, LString bytes] \<and> n \<le> 4096 \<and> length bytes \<le> 4096)"
proof -
  obtain rv pool s where r: "SSL_read E (ssl tc) 4096 = (rv, pool, s)"
    by (cases "SSL_read E (ssl tc) 4096") auto
  from reads_bounded_SSL_read [OF assms(1) r] have b: "sint rv \<le> 4096"
    by simp
  from assms(2) r b show ?thesis
    by (auto simp add: tls_conn_clear_out_read_def split: sum.splits if_splits)
qed

lemma tls_conn_clear_out_bounded:
  assumes "reads_bounded E" and "tls_conn_clear_out ndebug E tc = Inr (vs, tc', cs)"
  shows "(\<forall>k. Call_SSL_read k \<in> set cs \<longrightarrow> k = 4096) \<and>
         ((\<exists>n. vs = [LNumber n] \<and> n < 0) \<or>
          (\<exists>n bytes. vs = [LNumber n, LString bytes] \<and> n \<le> 4096 \<and> length bytes \<le> 4096))"
  using assms(2) tls_conn_clear_out_read_bounded [OF assms(1)]
  by (fastforce simp add: tls_conn_clear_out_def Let_def split: if_splits prod.splits sum.splits)

text \<open>
  Claim C10. \<open>tls_conn_enc_out\<close> and \<open>tls_conn_clear_out\<close> take no size from the caller:
  the one read each makes asks for 4096 bytes, the size of \<open>pool\<close>. With an engine
  whose reads never report more than the size they were given, the count pushed is
  at most 4096 and so is the length of the string pushed (\<open>tls_conn_clear_out\<close> may
  instead push the negative status of the handshake call, alone).
\<close>

theorem reads_return_at_most_4096:
  "reads_bounded E \<longrightarrow>
   (tls_conn_enc_out ndebug E tc = Inr (vs, tc', cs) \<longrightarrow>
      cs = [Call_BIO_read (bio_write tc) 4096] \<and>
      (\<exists>n bytes. vs = [LNumber n, LString bytes] \<and> n \<le> 4096 \<and> length bytes \<le> 4096)) \<and>
   (tls_conn_clear_out ndebug E tc = Inr (vs, tc', cs) \<longrightarrow>
      (\<forall>k. Call_SSL_read k \<in> set cs \<longrightarrow> k = 4096) \<and>
      ((\<exists>n. vs = [LNumber n] \<and> n < 0) \<or>
       (\<exists>n bytes. vs = [LNumber n, LString bytes] \<and> n \<le> 4096 \<and> length bytes \<le> 4096)))"
  using tls_conn_enc_out_bounded [of E ndebug tc vs tc' cs]
    tls_conn_clear_out_bounded [of E ndebug tc vs tc' cs]
  by blast

lemma enc_out_5000:
  "\<exists>tc'. tls_conn_enc_out False script_engine
      (loaded_conn 0 full_script [] (replicate 5000 (CHR ''c''))) =
    Inr ([LNumber 4096, LString (replicate 4096 (CHR ''c''))], tc', [Call_BIO_read Mem_bio_2 4096])"
  by (simp add: op_defs script_defs loaded_conn_def Let_def)

lemma clear_out_5000:
  "\<exists>tc'. tls_conn_clear_out False script_engine
      (loaded_conn 0 full_script [] (replicate 5000 (CHR ''c''))) =
    Inr ([LNumber 4096, LString (replicate 4096 (CHR ''p''))], tc', [Call_SSL_read 4096])"
  by (simp add: op_defs script_defs loaded_conn_def full_script_def Let_def)


text \<open>
  On the scripted engine, with 5000 bytes in the second BIO and 5000 bytes of
  cleartext pending: each operation returns 4096 bytes.
\<close>

theorem reads_return_at_most_4096_witness:
  "reads_bounded script_engine \<and>
   (\<exists>tc'. tls_conn_enc_out False script_engine
      (loaded_conn 0 full_script [] (replicate 5000 (CHR ''c''))) =
    Inr ([LNumber 4096, LString (replicate 4096 (CHR ''c''))], tc', [Call_BIO_read Mem_bio_2 4096])) \<and>
   (\<exists>n bytes. [LNumber 4096, LString (replicate 4096 (CHR ''c''))] = [LNumber n, LString bytes] \<and>
      n \<le> 4096 \<and> length bytes \<le> 4096) \<and>
   (\<exists>tc'. tls_conn_clear_out False script_engine
      (loaded_conn 0 full_script [] (replicate 5000 (CHR ''c''))) =
    Inr ([LNumber 4096, LString (replicate 4096 (CHR ''p''))], tc', [Call_SSL_read 4096])) \<and>
   (\<exists>n bytes. [LNumber 4096, LString (replicate 4096 (CHR ''p''))] = [LNumber n, LString bytes] \<and>
      n \<le> 4096 \<and> length bytes \<le> 4096)"
proof -
  let ?tc = "loaded_conn 0 full_script [] (replicate 5000 (CHR ''c''))"
  from enc_out_5000 obtain tc1 where
    e: "tls_conn_enc_out False script_engine ?tc =
      Inr ([LNumber 4096, LString (replicate 4096 (CHR ''c''))], tc1, [Call_BIO_read Mem_bio_2 4096])"
    by blast
  from clear_out_5000 obtain tc2 where
    c: "tls_conn_clear_out False script_engine ?tc =
      Inr ([LNumber 4096, LString (replicate 4096 (CHR ''p''))], tc2, [Call_SSL_read 4096])"
    by blast
  from reads_return_at_most_4096 [where E = script_engine and ndebug = False and tc = ?tc
      and vs = "[LNumber 4096, LString (replicate 4096 (CHR ''c''))]" and tc' = tc1
      and cs = "[Call_BIO_read Mem_bio_2 4096]"] script_engine_reads_bounded e
  have a: "\<exists>n bytes. [LNumber 4096, LString (replicate 4096 (CHR ''c''))] = [LNumber n, LString bytes] \<and>
      n \<le> 4096 \<and> length bytes \<le> 4096"
    by blast
  from reads_return_at_most_4096 [where E = script_engine and ndebug = False and tc = ?tc
      and vs = "[LNumber 4096, LString (replicate 4096 (CHR ''p''))]" and tc' = tc2
      and cs = "[Call_SSL_read 4096]"] script_engine_reads_bounded c
  have b: "\<exists>n bytes. [LNumber 4096, LString (replicate 4096 (CHR ''p''))] = [LNumber n, LString bytes] \<and>
      n \<le> 4096 \<and> length bytes \<le> 4096"
    by auto
  from script_engine_reads_bounded e c a b show ?thesis
    by blast
qed

subsection \<open>encIn then encOut on memory BIOs\<close>

lemma mem_BIO_write_data:
  "length data < 2 ^ 31 \<Longrightarrow>
   mem_data (bios (snd (mem_BIO_write b w data (of_nat (length data)))) b') =
     (if b' = b then mem_data (bios w b) @ data else mem_data (bios w b'))"
  by (simp add: mem_BIO_write_def Let_def sint_of_nat_small)

lemma mem_BIO_read_data:
  "mem_data (bios (snd (snd (mem_BIO_read b w n))) b') =
     (if b' = b then drop n (mem_data (bios w b)) else mem_data (bios w b'))"
  by (simp add: mem_BIO_read_def Let_def)

lemma mem_enc_in:
  "length data < 2 ^ 31 \<Longrightarrow>
   tls_conn_enc_in ndebug (with_mem_bios E) tc data =
     Inr ([LNumber (int (length data))],
          tc\<lparr>ssl := snd (mem_BIO_write (bio_read tc) (ssl tc) data (of_nat (length data)))\<rparr>,
          [Call_BIO_write (bio_read tc) data (of_nat (length data))])"
  by (simp add: tls_conn_enc_in_def with_mem_bios_def mem_BIO_write_def Let_def
      sint_of_nat_small tls_handle_bio_error_x_nonneg)

lemma mem_enc_out:
  "tls_conn_enc_out ndebug (with_mem_bios E) tc =
     Inr ([LNumber (if mem_data (bios (ssl tc) (bio_write tc)) = [] then - 1
                    else int (min 4096 (length (mem_data (bios (ssl tc) (bio_write tc)))))),
           LString (take 4096 (mem_data (bios (ssl tc) (bio_write tc))))],
          tc\<lparr>ssl := snd (snd (mem_BIO_read (bio_write tc) (ssl tc) 4096))\<rparr>,
          [Call_BIO_read (bio_write tc) 4096])"
proof (cases "mem_data (bios (ssl tc) (bio_write tc)) = []")
  case True
  then show ?thesis
    by (simp add: tls_conn_enc_out_def with_mem_bios_def mem_BIO_read_def Let_def
        tls_handle_bio_error_x_def mem_BIO_should_read_def mem_BIO_should_write_def)
next
  case False
  let ?d = "mem_data (bios (ssl tc) (bio_write tc))"
  show ?thesis
  proof (cases "4096 \<le> length ?d")
    case True
    with False show ?thesis
      by (simp add: tls_conn_enc_out_def with_mem_bios_def mem_BIO_read_def Let_def
          tls_handle_bio_error_x_nonneg)
  next
    case short: False
    then have k: "sint (of_nat (length ?d) :: cint) = int (length ?d)"
      by (intro sint_of_nat_small) simp
    from False have p: "0 < length ?d"
      by simp
    from False short k p show ?thesis
      by (simp add: tls_conn_enc_out_def with_mem_bios_def mem_BIO_read_def Let_def
          tls_handle_bio_error_x_nonneg)
  qed
qed


text \<open>
  Claim C5, as the code has it. \<open>tls_conn_enc_in\<close> writes to \<open>bio_read\<close> and
  \<open>tls_conn_enc_out\<close> reads from \<open>bio_write\<close>, two different memory BIOs. Fed bytes
  (fewer than \<open>2^31\<close> of them) are appended, in order and without loss, to the
  content \<open>rd\<close> of the first, and the second is untouched; draining then removes the
  first 4096 bytes of the content \<open>wr\<close> the second had before the feed (or pushes -1
  and the empty string when it is empty), and the first still holds \<open>rd @ data\<close>.
\<close>

theorem feed_then_drain_amended:
  "bio_read tc \<noteq> bio_write tc \<and> length data < 2 ^ 31 \<and>
   rd = mem_data (bios (ssl tc) (bio_read tc)) \<and>
   wr = mem_data (bios (ssl tc) (bio_write tc)) \<and>
   drained = [LNumber (if wr = [] then - 1 else int (min 4096 (length wr))),
              LString (take 4096 wr)] \<longrightarrow>
   (\<exists>tc1 tc2.
      tls_conn_enc_in ndebug (with_mem_bios E) tc data =
        Inr ([LNumber (int (length data))], tc1,
             [Call_BIO_write (bio_read tc) data (of_nat (length data))]) \<and>
      mem_data (bios (ssl tc1) (bio_read tc)) = rd @ data \<and>
      mem_data (bios (ssl tc1) (bio_write tc)) = wr \<and>
      tls_conn_enc_out ndebug (with_mem_bios E) tc1 =
        Inr (drained, tc2, [Call_BIO_read (bio_write tc) 4096]) \<and>
      mem_data (bios (ssl tc2) (bio_read tc)) = rd @ data \<and>
      mem_data (bios (ssl tc2) (bio_write tc)) = drop 4096 wr) \<and>
   feed_then_drain ndebug (with_mem_bios E) tc data = Inr drained"
proof (intro impI, elim conjE)
  assume ne: "bio_read tc \<noteq> bio_write tc" and len: "length data < 2 ^ 31"
    and rd: "rd = mem_data (bios (ssl tc) (bio_read tc))"
    and wr: "wr = mem_data (bios (ssl tc) (bio_write tc))"
    and dr: "drained = [LNumber (if wr = [] then - 1 else int (min 4096 (length wr))),
              LString (take 4096 wr)]"
  define tc1 where
    "tc1 = tc\<lparr>ssl := snd (mem_BIO_write (bio_read tc) (ssl tc) data (of_nat (length data)))\<rparr>"
  define tc2 where
    "tc2 = tc1\<lparr>ssl := snd (snd (mem_BIO_read (bio_write tc1) (ssl tc1) 4096))\<rparr>"
  have b1: "bio_write tc1 = bio_write tc"
    by (simp add: tc1_def)
  have i: "tls_conn_enc_in ndebug (with_mem_bios E) tc data =
        Inr ([LNumber (int (length data))], tc1,
             [Call_BIO_write (bio_read tc) data (of_nat (length data))])"
    by (simp add: tc1_def mem_enc_in [OF len])
  have r1: "mem_data (bios (ssl tc1) (bio_read tc)) = rd @ data"
    by (simp add: tc1_def rd mem_BIO_write_data [OF len])
  have w1: "mem_data (bios (ssl tc1) (bio_write tc)) = wr"
    using ne by (simp add: tc1_def wr mem_BIO_write_data [OF len])
  have out: "tls_conn_enc_out ndebug (with_mem_bios E) tc1 =
        Inr (drained, tc2, [Call_BIO_read (bio_write tc) 4096])"
    by (simp add: mem_enc_out [of ndebug E tc1] tc2_def b1 w1 dr)
  have r2: "mem_data (bios (ssl tc2) (bio_read tc)) = rd @ data"
    using ne by (simp add: tc2_def mem_BIO_read_data b1 r1)
  have w2: "mem_data (bios (ssl tc2) (bio_write tc)) = drop 4096 wr"
    by (simp add: tc2_def mem_BIO_read_data b1 w1)
  have f: "feed_then_drain ndebug (with_mem_bios E) tc data = Inr drained"
    by (simp add: feed_then_drain_def i out)
  from i r1 w1 out r2 w2 f show "(\<exists>tc1 tc2.
      tls_conn_enc_in ndebug (with_mem_bios E) tc data =
        Inr ([LNumber (int (length data))], tc1,
             [Call_BIO_write (bio_read tc) data (of_nat (length data))]) \<and>
      mem_data (bios (ssl tc1) (bio_read tc)) = rd @ data \<and>
      mem_data (bios (ssl tc1) (bio_write tc)) = wr \<and>
      tls_conn_enc_out ndebug (with_mem_bios E) tc1 =
        Inr (drained, tc2, [Call_BIO_read (bio_write tc) 4096]) \<and>
      mem_data (bios (ssl tc2) (bio_read tc)) = rd @ data \<and>
      mem_data (bios (ssl tc2) (bio_write tc)) = drop 4096 wr) \<and>
   feed_then_drain ndebug (with_mem_bios E) tc data = Inr drained"
    by blast
qed

text \<open>
  Claim C5 as stated says the drained bytes are the fed bytes. On a connection with
  empty BIOs, feeding \<open>AB\<close> and draining gives -1 and the empty string.
\<close>

theorem feed_then_drain_counterexample:
  "feed_then_drain False script_engine (script_conn 0 done_script) ''AB'' =
     Inr [LNumber (- 1), LString []]"
  by (simp add: feed_then_drain_def op_defs script_defs Let_def)

text \<open>With \<open>old\<close> in the first BIO and \<open>XY\<close> in the second, feeding \<open>AB\<close> and draining gives \<open>XY\<close>.\<close>

theorem feed_then_drain_amended_witness:
  "bio_read (loaded_conn 0 done_script ''old'' ''XY'')
     \<noteq> bio_write (loaded_conn 0 done_script ''old'' ''XY'') \<and>
   length ''AB'' < (2 :: nat) ^ 31 \<and>
   mem_data (bios (ssl (loaded_conn 0 done_script ''old'' ''XY'')) Mem_bio_1) = ''old'' \<and>
   mem_data (bios (ssl (loaded_conn 0 done_script ''old'' ''XY'')) Mem_bio_2) = ''XY'' \<and>
   feed_then_drain False (with_mem_bios script_engine) (loaded_conn 0 done_script ''old'' ''XY'') ''AB''
     = Inr [LNumber 2, LString ''XY'']"
  using feed_then_drain_amended [where tc = "loaded_conn 0 done_script ''old'' ''XY''"
      and data = "''AB''" and rd = "''old''" and wr = "''XY''" and E = script_engine
      and ndebug = False and drained = "[LNumber 2, LString ''XY'']"]
  by (simp add: loaded_conn_def fresh_bio_def)

subsection \<open>newCONN\<close>

lemma lua_toboolean_true: "lua_toboolean v \<noteq> 0 \<longleftrightarrow> lua_true v"
  by (cases v) (simp_all add: lua_true_def)

text \<open>
  Claim C6. \<open>newCONN\<close> computes the verification mode from the truth of its three
  arguments and passes it to the engine with the callback \<open>tls_conn_verify_cb\<close>: for
  a client \<open>SSL_VERIFY_NONE\<close> whatever the flags; for a server \<open>SSL_VERIFY_NONE\<close>
  without request-cert, \<open>SSL_VERIFY_PEER\<close> with it, and \<open>SSL_VERIFY_PEER\<close> together
  with \<open>SSL_VERIFY_FAIL_IF_NO_PEER_CERT\<close> when reject-unauthorized is set too. The
  callback returns 1 for every argument.
\<close>

theorem newCONN_verify_mode:
  "ssl (newCONN (ssl_new :: 'c \<Rightarrow> 'x ssl_config \<Rightarrow> 'w) sc server request reject)
     = ssl_new sc (newCONN_config sc server request reject) \<and>
   (is_server (newCONN ssl_new sc server request reject) \<noteq> 0 \<longleftrightarrow> lua_true server) \<and>
   cfg_accept_state (newCONN_config sc server request reject :: 'x ssl_config) = lua_true server \<and>
   (\<not> lua_true server \<longrightarrow>
      cfg_verify_mode (newCONN_config sc server request reject :: 'x ssl_config) = SSL_VERIFY_NONE) \<and>
   (lua_true server \<and> \<not> lua_true request \<longrightarrow>
      cfg_verify_mode (newCONN_config sc server request reject :: 'x ssl_config) = SSL_VERIFY_NONE) \<and>
   (lua_true server \<and> lua_true request \<and> \<not> lua_true reject \<longrightarrow>
      cfg_verify_mode (newCONN_config sc server request reject :: 'x ssl_config) = SSL_VERIFY_PEER) \<and>
   (lua_true server \<and> lua_true request \<and> lua_true reject \<longrightarrow>
      cfg_verify_mode (newCONN_config sc server request reject :: 'x ssl_config)
        = SSL_VERIFY_PEER OR SSL_VERIFY_FAIL_IF_NO_PEER_CERT) \<and>
   cfg_verify_callback (newCONN_config sc server request reject :: 'x ssl_config) = tls_conn_verify_cb \<and>
   tls_conn_verify_cb preverify_ok (ctx :: 'x) = 1 \<and>
   SSL_VERIFY_NONE = 0 \<and> SSL_VERIFY_PEER \<noteq> 0 \<and>
   (SSL_VERIFY_PEER OR SSL_VERIFY_FAIL_IF_NO_PEER_CERT) AND SSL_VERIFY_PEER = SSL_VERIFY_PEER \<and>
   (SSL_VERIFY_PEER OR SSL_VERIFY_FAIL_IF_NO_PEER_CERT) AND SSL_VERIFY_FAIL_IF_NO_PEER_CERT
     = SSL_VERIFY_FAIL_IF_NO_PEER_CERT \<and>
   SSL_VERIFY_PEER AND SSL_VERIFY_FAIL_IF_NO_PEER_CERT = 0"
  by (simp add: newCONN_def newCONN_config_def Let_def lua_toboolean_true tls_conn_verify_cb_def
      SSL_VERIFY_NONE_def SSL_VERIFY_PEER_def SSL_VERIFY_FAIL_IF_NO_PEER_CERT_def)

text \<open>The four cases: a client with both flags, and a server with neither, one, and both.\<close>

theorem newCONN_verify_mode_witness:
  "\<not> lua_true (LBoolean False) \<and> lua_true (LBoolean True) \<and> \<not> lua_true LNil \<and>
   cfg_verify_mode (newCONN_config () (LBoolean False) (LBoolean True) (LBoolean True)
      :: unit ssl_config) = SSL_VERIFY_NONE \<and>
   cfg_verify_mode (newCONN_config () (LBoolean True) LNil (LBoolean True)
      :: unit ssl_config) = SSL_VERIFY_NONE \<and>
   cfg_verify_mode (newCONN_config () (LBoolean True) (LBoolean True) LNil
      :: unit ssl_config) = SSL_VERIFY_PEER \<and>
   cfg_verify_mode (newCONN_config () (LBoolean True) (LBoolean True) (LBoolean True)
      :: unit ssl_config) = SSL_VERIFY_PEER OR SSL_VERIFY_FAIL_IF_NO_PEER_CERT"
  using
    newCONN_verify_mode [where 'x = unit and sc = "()" and ssl_new = "\<lambda>sc cfg. cfg"
      and preverify_ok = 0 and ctx = "()"
      and server = "LBoolean False" and request = "LBoolean True" and reject = "LBoolean True"]
    newCONN_verify_mode [where 'x = unit and sc = "()" and ssl_new = "\<lambda>sc cfg. cfg"
      and preverify_ok = 0 and ctx = "()"
      and server = "LBoolean True" and request = LNil and reject = "LBoolean True"]
    newCONN_verify_mode [where 'x = unit and sc = "()" and ssl_new = "\<lambda>sc cfg. cfg"
      and preverify_ok = 0 and ctx = "()"
      and server = "LBoolean True" and request = "LBoolean True" and reject = LNil]
    newCONN_verify_mode [where 'x = unit and sc = "()" and ssl_new = "\<lambda>sc cfg. cfg"
      and preverify_ok = 0 and ctx = "()"
      and server = "LBoolean True" and request = "LBoolean True" and reject = "LBoolean True"]
  by (simp add: lua_true_def)

subsection \<open>verifyError\<close>

lemmas x509_defs = X509_V_OK_def
  X509_V_ERR_UNABLE_TO_GET_ISSUER_CERT_def X509_V_ERR_UNABLE_TO_GET_CRL_def
  X509_V_ERR_UNABLE_TO_DECRYPT_CERT_SIGNATURE_def X509_V_ERR_UNABLE_TO_DECRYPT_CRL_SIGNATURE_def
  X509_V_ERR_UNABLE_TO_DECODE_ISSUER_PUBLIC_KEY_def X509_V_ERR_CERT_SIGNATURE_FAILURE_def
  X509_V_ERR_CRL_SIGNATURE_FAILURE_def X509_V_ERR_CERT_NOT_YET_VALID_def
  X509_V_ERR_CERT_HAS_EXPIRED_def X509_V_ERR_CRL_NOT_YET_VALID_def X509_V_ERR_CRL_HAS_EXPIRED_def
  X509_V_ERR_ERROR_IN_CERT_NOT_BEFORE_FIELD_def X509_V_ERR_ERROR_IN_CERT_NOT_AFTER_FIELD_def
  X509_V_ERR_ERROR_IN_CRL_LAST_UPDATE_FIELD_def X509_V_ERR_ERROR_IN_CRL_NEXT_UPDATE_FIELD_def
  X509_V_ERR_OUT_OF_MEM_def X509_V_ERR_DEPTH_ZERO_SELF_SIGNED_CERT_def
  X509_V_ERR_SELF_SIGNED_CERT_IN_CHAIN_def X509_V_ERR_UNABLE_TO_GET_ISSUER_CERT_LOCALLY_def
  X509_V_ERR_UNABLE_TO_VERIFY_LEAF_SIGNATURE_def X509_V_ERR_CERT_CHAIN_TOO_LONG_def
  X509_V_ERR_CERT_REVOKED_def X509_V_ERR_INVALID_CA_def X509_V_ERR_PATH_LENGTH_EXCEEDED_def
  X509_V_ERR_INVALID_PURPOSE_def X509_V_ERR_CERT_UNTRUSTED_def X509_V_ERR_CERT_REJECTED_def

text \<open>
  Claim C7. Without a peer certificate the result is the string
  \<open>Unable to get peer certificate\<close>; with one it is \<open>nil\<close> for \<open>X509_V_OK\<close>, the name
  the taxonomy gives for each of its 27 codes, and for every other code the text of
  \<open>X509_verify_cert_error_string\<close>. The codes of the taxonomy are distinct and none is
  \<open>X509_V_OK\<close>; its names are distinct and none is the no-certificate string.
\<close>

theorem tls_conn_verify_error_taxonomy:
  "tls_conn_verify_error get_peer get_verify err_string tc =
     (case get_peer (ssl tc) of
        None \<Rightarrow> LString ''Unable to get peer certificate''
      | Some peer_cert \<Rightarrow>
          if get_verify (ssl tc) = X509_V_OK then LNil
          else (case map_of verify_error_names (get_verify (ssl tc)) of
                  Some name \<Rightarrow> LString name
                | None \<Rightarrow> LString (err_string (get_verify (ssl tc))))) \<and>
   distinct (map fst verify_error_names) \<and>
   distinct (map snd verify_error_names) \<and>
   length verify_error_names = 27 \<and>
   X509_V_OK \<notin> fst ` set verify_error_names \<and>
   ''Unable to get peer certificate'' \<notin> snd ` set verify_error_names"
proof (intro conjI)
  show "tls_conn_verify_error get_peer get_verify err_string tc =
     (case get_peer (ssl tc) of
        None \<Rightarrow> LString ''Unable to get peer certificate''
      | Some peer_cert \<Rightarrow>
          if get_verify (ssl tc) = X509_V_OK then LNil
          else (case map_of verify_error_names (get_verify (ssl tc)) of
                  Some name \<Rightarrow> LString name
                | None \<Rightarrow> LString (err_string (get_verify (ssl tc)))))"
    by (simp add: tls_conn_verify_error_def verify_error_names_def Let_def split: option.split)
  show "distinct (map fst verify_error_names)"
    by (simp add: verify_error_names_def x509_defs)
  show "distinct (map snd verify_error_names)"
    by (simp add: verify_error_names_def)
  show "length verify_error_names = 27"
    by (simp add: verify_error_names_def)
  show "X509_V_OK \<notin> fst ` set verify_error_names"
    by (simp add: verify_error_names_def x509_defs)
  show "''Unable to get peer certificate'' \<notin> snd ` set verify_error_names"
    by (simp add: verify_error_names_def)
qed

subsection \<open>The fingerprint\<close>

lemma hex_table: "\<forall>k \<in> set [0..<16]. hex ! k = upper_hex_digit k"
  by code_simp

lemma hex_table_not_nul: "\<forall>k \<in> set [0..<16]. hex ! k \<noteq> CHR 0x00"
  by code_simp

lemma hex_nth: "k < 16 \<Longrightarrow> hex ! k = upper_hex_digit k"
  using hex_table by simp

lemma hex_nth_not_nul: "k < 16 \<Longrightarrow> hex ! k \<noteq> CHR 0x00"
  using hex_table_not_nul by simp

lemma high_nibble: "unat (drop_bit 4 (b AND 0xf0 :: 8 word)) = unat b div 16"
proof -
  have m: "(0xf0 :: 8 word) = push_bit 4 (mask 4)"
    by (simp add: mask_eq_exp_minus_1 push_bit_eq_mult)
  have "drop_bit 4 (b AND push_bit 4 (mask 4)) = drop_bit 4 b"
    by (rule bit_word_eqI) (auto simp add: bit_simps dest: bit_imp_le_length)
  then show ?thesis
    by (simp add: m unsigned_drop_bit_eq drop_bit_eq_div unat_div_distrib)
qed

lemma low_nibble: "unat (b AND 0x0f :: 8 word) = unat b mod 16"
proof -
  have m: "(0x0f :: 8 word) = mask 4"
    by (simp add: mask_eq_exp_minus_1)
  show ?thesis
    by (simp add: m flip: take_bit_eq_mask)
      (simp add: unsigned_take_bit_eq take_bit_eq_mod unat_mod_distrib)
qed

lemma unat_byte_div: "unat (b :: 8 word) div 16 < 16"
  using unsigned_less [of b, where 'a = nat] by simp

lemma fingerprint_triple_eq: "fingerprint_triple b = upper_hex_pair b @ [CHR '':'']"
  unfolding fingerprint_triple_def upper_hex_pair_def high_nibble low_nibble
  using hex_nth [OF unat_byte_div [of b]] hex_nth [of "unat b mod 16"]
  by simp

lemma fingerprint_triple_not_nul: "c \<in> set (fingerprint_triple b) \<Longrightarrow> c \<noteq> CHR 0x00"
  unfolding fingerprint_triple_def high_nibble low_nibble
  using hex_nth_not_nul [OF unat_byte_div [of b]] hex_nth_not_nul [of "unat b mod 16"]
  by auto

lemma take_update3:
  "3 * i + 3 \<le> length fp \<Longrightarrow>
   take (3 * i + 3) (fp[3 * i := a, 3 * i + 1 := b, 3 * i + 2 := c]) = take (3 * i) fp @ [a, b, c]"
  by (rule nth_equalityI) (auto simp add: nth_append nth_list_update less_Suc_eq numeral_3_eq_3)

lemma fingerprint_loop_length: "length (fingerprint_loop md i fp) = length fp"
proof (induction md i fp rule: fingerprint_loop.induct)
  case (1 md i fingerprint)
  show ?case
  proof (cases "i < length md")
    case True
    with "1.IH" show ?thesis
      by (subst fingerprint_loop.simps) simp
  next
    case False
    then show ?thesis
      by (subst fingerprint_loop.simps) simp
  qed
qed

lemma fingerprint_loop_take:
  "i \<le> length md \<Longrightarrow> 3 * length md \<le> length fp \<Longrightarrow>
   take (3 * length md) (fingerprint_loop md i fp) =
     take (3 * i) fp @ concat (map fingerprint_triple (drop i md))"
proof (induction md i fp rule: fingerprint_loop.induct)
  case (1 md i fingerprint)
  show ?case
  proof (cases "i < length md")
    case True
    let ?fp = "fingerprint[3 * i := hex ! unat (drop_bit 4 (md ! i AND 0xf0)),
                      3 * i + 1 := hex ! unat (md ! i AND 0x0f),
                      3 * i + 2 := CHR '':'']"
    have step: "fingerprint_loop md i fingerprint = fingerprint_loop md (i + 1) ?fp"
      using True by (subst fingerprint_loop.simps) simp
    have room: "3 * i + 3 \<le> length fingerprint"
      using True "1.prems" by simp
    have idx: "3 * (i + 1) = 3 * i + 3"
      by simp
    have pre: "take (3 * (i + 1)) ?fp = take (3 * i) fingerprint @ fingerprint_triple (md ! i)"
      unfolding fingerprint_triple_def idx by (rule take_update3 [OF room])
    have rest: "drop i md = md ! i # drop (i + 1) md"
      using True by (simp add: Cons_nth_drop_Suc)
    have "take (3 * length md) (fingerprint_loop md (i + 1) ?fp) =
       take (3 * (i + 1)) ?fp @ concat (map fingerprint_triple (drop (i + 1) md))"
      using "1.IH" [OF True] True "1.prems" by simp
    then show ?thesis
      by (simp only: step pre rest) simp
  next
    case False
    with "1.prems" have "i = length md"
      by simp
    then show ?thesis
      by (subst fingerprint_loop.simps) simp
  qed
qed

lemma concat_triples:
  "md \<noteq> [] \<Longrightarrow> concat (map fingerprint_triple md) = colon_hex md @ [CHR '':'']"
proof (induction md)
  case Nil
  then show ?case by simp
next
  case (Cons b bs)
  have head: "concat (map fingerprint_triple (b # bs)) =
      upper_hex_pair b @ CHR '':'' # concat (map fingerprint_triple bs)"
    by (simp only: list.map concat.simps fingerprint_triple_eq [of b]) simp
  show ?case
  proof (cases bs)
    case Nil
    with head show ?thesis
      by (simp add: colon_hex_def)
  next
    case (Cons q qs)
    with Cons.IH have "concat (map fingerprint_triple bs) = colon_hex bs @ [CHR '':'']"
      by simp
    with head have "concat (map fingerprint_triple (b # bs)) =
      upper_hex_pair b @ CHR '':'' # colon_hex bs @ [CHR '':'']"
      by (simp only:)
    also have "\<dots> = colon_hex (b # bs) @ [CHR '':'']"
      using Cons by (simp add: colon_hex_def)
    finally show ?thesis .
  qed
qed

lemma length_fingerprint_triples: "length (concat (map fingerprint_triple md)) = 3 * length md"
  by (induction md) (simp_all add: fingerprint_triple_def)

lemma length_colon_hex: "md \<noteq> [] \<Longrightarrow> length (colon_hex md) = 3 * length md - 1"
proof -
  assume "md \<noteq> []"
  then have "concat (map fingerprint_triple md) = colon_hex md @ [CHR '':'']"
    by (rule concat_triples)
  then have "length (concat (map fingerprint_triple md)) = length (colon_hex md) + 1"
    by (simp only: length_append) simp
  then show ?thesis
    by (simp only: length_fingerprint_triples)
qed

lemma colon_hex_not_nul: "c \<in> set (colon_hex md) \<Longrightarrow> c \<noteq> CHR 0x00"
proof (cases "md = []")
  case True
  assume "c \<in> set (colon_hex md)"
  with True show ?thesis by (simp add: colon_hex_def)
next
  case False
  assume "c \<in> set (colon_hex md)"
  then have "c \<in> set (concat (map fingerprint_triple md))"
    by (simp add: concat_triples [OF False])
  then show ?thesis
    using fingerprint_triple_not_nul by auto
qed

lemma fingerprint_string_eq:
  assumes "3 * length md \<le> length fp0" and "fp0 \<noteq> []"
  shows "fingerprint_string md fp0 = colon_hex md"
proof (cases "md = []")
  case True
  from assms(2) obtain x xs where "fp0 = x # xs"
    by (cases fp0) auto
  with True show ?thesis
    by (simp add: fingerprint_string_def colon_hex_def fingerprint_loop.simps [of "[]"])
next
  case False
  let ?n = "length md"
  let ?fp1 = "fingerprint_loop md 0 fp0"
  have len: "length ?fp1 = length fp0"
    by (rule fingerprint_loop_length)
  have "take (3 * ?n) ?fp1 = concat (map fingerprint_triple md)"
    using fingerprint_loop_take [of 0 md fp0] assms(1) by simp
  then have t: "take (3 * ?n) ?fp1 = colon_hex md @ [CHR '':'']"
    by (simp add: concat_triples [OF False])
  have split: "?fp1 = colon_hex md @ CHR '':'' # drop (3 * ?n) ?fp1"
    using append_take_drop_id [of "3 * ?n" ?fp1] unfolding t by simp
  have pos: "3 * (?n - 1) + 2 = length (colon_hex md)"
    using False length_colon_hex [OF False] by (cases md) simp_all
  have "?fp1[3 * (?n - 1) + 2 := CHR 0x00] = colon_hex md @ CHR 0x00 # drop (3 * ?n) ?fp1"
    by (subst split, subst pos) (simp add: list_update_length)
  then have "fingerprint_string md fp0 =
      takeWhile (\<lambda>c. c \<noteq> CHR 0x00) (colon_hex md @ CHR 0x00 # drop (3 * ?n) ?fp1)"
    using False by (simp add: fingerprint_string_def Let_def)
  also have "\<dots> = colon_hex md"
    using colon_hex_not_nul [of _ md] by (simp add: takeWhile_append2)
  finally show ?thesis .
qed

lemma upper_hex_digit_table: "\<forall>k \<in> set [0..<16]. upper_hex_digit k \<noteq> CHR '':''"
  by code_simp

lemma colon_hex_last: "md \<noteq> [] \<Longrightarrow> last (colon_hex md) = upper_hex_digit (unat (last md) mod 16)"
proof (induction md)
  case Nil
  then show ?case by simp
next
  case (Cons b bs)
  show ?case
  proof (cases bs)
    case Nil
    then show ?thesis
      by (simp add: colon_hex_def upper_hex_pair_def)
  next
    case (Cons q qs)
    with Cons.IH have "last (colon_hex bs) = upper_hex_digit (unat (last bs) mod 16)"
      by simp
    moreover from Cons length_colon_hex [of bs] have "colon_hex bs \<noteq> []"
      by auto
    ultimately show ?thesis
      using Cons by (simp add: colon_hex_def)
  qed
qed

lemma colon_hex_no_trailing_colon: "md \<noteq> [] \<Longrightarrow> last (colon_hex md) \<noteq> CHR '':''"
  using upper_hex_digit_table by (simp add: colon_hex_last)

text \<open>
  Claim C8. For a digest of at most \<open>EVP_MAX_MD_SIZE\<close> bytes, and whatever the local
  array held on entry, the string pushed is the digest in uppercase hexadecimal
  pairs joined by colons: its length is \<open>3n - 1\<close> for a digest of \<open>n > 0\<close> bytes, its
  last character is not a colon, and for an empty digest it is empty. The digest is
  the one \<open>X509_digest\<close> returns for \<open>EVP_sha1()\<close>.
\<close>

theorem fingerprint_rendering:
  "length md \<le> EVP_MAX_MD_SIZE \<and> length buffer = EVP_MAX_MD_SIZE * 3 \<longrightarrow>
     fingerprint_string md buffer = colon_hex md \<and>
     (md \<noteq> [] \<longrightarrow> length (fingerprint_string md buffer) = 3 * length md - 1 \<and>
                 last (fingerprint_string md buffer) \<noteq> CHR '':'') \<and>
     (md = [] \<longrightarrow> fingerprint_string md buffer = []) \<and>
     (digest_of peer_cert = Some md \<longrightarrow>
        fingerprint_field digest_of peer_cert buffer =
          [(''fingerprint'', LString (colon_hex md))])"
proof
  assume a: "length md \<le> EVP_MAX_MD_SIZE \<and> length buffer = EVP_MAX_MD_SIZE * 3"
  then have "3 * length md \<le> length buffer" and "buffer \<noteq> []"
    by (auto simp add: EVP_MAX_MD_SIZE_def)
  then have e: "fingerprint_string md buffer = colon_hex md"
    by (rule fingerprint_string_eq)
  show "fingerprint_string md buffer = colon_hex md \<and>
     (md \<noteq> [] \<longrightarrow> length (fingerprint_string md buffer) = 3 * length md - 1 \<and>
                 last (fingerprint_string md buffer) \<noteq> CHR '':'') \<and>
     (md = [] \<longrightarrow> fingerprint_string md buffer = []) \<and>
     (digest_of peer_cert = Some md \<longrightarrow>
        fingerprint_field digest_of peer_cert buffer =
          [(''fingerprint'', LString (colon_hex md))])"
    using e length_colon_hex [of md] colon_hex_no_trailing_colon [of md]
    by (auto simp add: fingerprint_field_def colon_hex_def)
qed

lemma colon_hex_Nil: "colon_hex [] = []"
  by (simp add: colon_hex_def)

lemma colon_hex_example: "colon_hex [0xDE, 0xAD, 0x0B] = ''DE:AD:0B''"
  by code_simp

text \<open>The digest \<open>DE AD 0B\<close> and the empty digest, with an array of 192 question marks.\<close>

theorem fingerprint_rendering_witness:
  "length [0xDE, 0xAD, 0x0B :: 8 word] \<le> EVP_MAX_MD_SIZE \<and>
   length (replicate 192 (CHR ''?'')) = EVP_MAX_MD_SIZE * 3 \<and>
   fingerprint_string [0xDE, 0xAD, 0x0B] (replicate 192 (CHR ''?'')) = ''DE:AD:0B'' \<and>
   length (fingerprint_string [0xDE, 0xAD, 0x0B] (replicate 192 (CHR ''?''))) = 8 \<and>
   fingerprint_field (\<lambda>c. Some [0xDE, 0xAD, 0x0B]) () (replicate 192 (CHR ''?''))
     = [(''fingerprint'', LString ''DE:AD:0B'')] \<and>
   fingerprint_string [] (replicate 192 (CHR ''?'')) = []"
  using fingerprint_rendering [where md = "[0xDE, 0xAD, 0x0B]"
      and buffer = "replicate 192 (CHR ''?'')"
      and digest_of = "\<lambda>c. Some [0xDE, 0xAD, 0x0B]" and peer_cert = "()"]
    fingerprint_rendering [where md = "[]" and buffer = "replicate 192 (CHR ''?'')"
      and digest_of = "\<lambda>c. Some []" and peer_cert = "()"]
  by (simp add: EVP_MAX_MD_SIZE_def colon_hex_example colon_hex_Nil)

end
